theory Spec2Isabelle
  imports Complex_Main "HOL-Library.Log_Nat"
begin

section \<open>Values exchanged with the display-configuration service\<close>

text \<open>
  The script \<^verbatim>\<open>set-refresh-rate.py\<close> talks to Mutter's DisplayConfig interface.
  The reply of \<^verbatim>\<open>GetCurrentState\<close> is unpacked into nested Python tuples, lists and
  dictionaries. Values of variant type (the \<^verbatim>\<open>a{sv}\<close> property dictionaries) and
  arbitrary, possibly ill-shaped, Python data are values of \<open>pyval\<close>. Dictionaries are
  keyed by strings, as \<^verbatim>\<open>a{sv}\<close> is, and keep their insertion order.

\<close>

subsection \<open>Python floats\<close>

text \<open>
  A Python float is an IEEE 754 binary64 number. \<open>Finite m e\<close> stands for the number
  \<open>m * 2 ^ e\<close>; the doubles are the values with \<open>\<bar>m\<bar> < 2 ^ 53\<close> and
  \<open>- 1074 \<le> e \<le> 971\<close>, the two infinities and NaN. The sign of a zero is not kept: the
  script only subtracts floats, takes \<^verbatim>\<open>abs\<close> and compares with \<^verbatim>\<open>1.0\<close>, and none
  of these tells the two zeros apart.
\<close>

datatype pyfloat = Finite int int | PosInf | NegInf | NaN

text \<open>
  \<open>round_half_even a s\<close> is \<open>a / 2 ^ s\<close> rounded to the nearest integer, a tie going to
  the even one.
\<close>

definition round_half_even :: "int \<Rightarrow> nat \<Rightarrow> int" where
  "round_half_even a s =
     (let q = a div 2 ^ s; r = a mod 2 ^ s in
      if 2 ^ s < 2 * r \<or> (2 * r = 2 ^ s \<and> odd q) then q + 1 else q)"

text \<open>
  A rounded significand is at most \<open>2 ^ 53\<close>, so \<open>q * 2 ^ e\<close> reaches \<open>2 ^ 1024\<close>, the
  overflow threshold, only for \<open>971 \<le> e\<close>.
\<close>

definition overflows :: "int \<Rightarrow> int \<Rightarrow> bool" where
  "overflows q e \<longleftrightarrow> 971 \<le> e \<and> 2 ^ 53 \<le> q * 2 ^ nat (e - 971)"

text \<open>
  The double nearest to \<open>M * 2 ^ e\<close> (round to nearest, ties to even): the number is
  shifted right until 53 significant bits are left, but not below the exponent \<open>- 1074\<close>
  of the subnormal numbers.
\<close>

definition round_double :: "int \<Rightarrow> int \<Rightarrow> pyfloat" where
  "round_double M e =
     (let a = \<bar>M\<bar>;
          s = nat (max (bitlen a - 53) (- 1074 - e));
          q = round_half_even a s;
          e' = e + int s in
      if overflows q e' then (if M < 0 then NegInf else PosInf)
      else Finite (sgn M * q) e')"

text \<open>\<^verbatim>\<open>x - y\<close>: the exact difference, rounded.\<close>

fun fsub :: "pyfloat \<Rightarrow> pyfloat \<Rightarrow> pyfloat" where
  "fsub (Finite m1 e1) (Finite m2 e2) =
     (let e = min e1 e2 in
      round_double (m1 * 2 ^ nat (e1 - e) - m2 * 2 ^ nat (e2 - e)) e)"
| "fsub NaN y = NaN"
| "fsub x NaN = NaN"
| "fsub PosInf PosInf = NaN"
| "fsub NegInf NegInf = NaN"
| "fsub PosInf y = PosInf"
| "fsub NegInf y = NegInf"
| "fsub (Finite m e) PosInf = NegInf"
| "fsub (Finite m e) NegInf = PosInf"

text \<open>\<^verbatim>\<open>abs(x)\<close>.\<close>

fun fabs :: "pyfloat \<Rightarrow> pyfloat" where
  "fabs (Finite m e) = Finite \<bar>m\<bar> e"
| "fabs PosInf = PosInf"
| "fabs NegInf = PosInf"
| "fabs NaN = NaN"

text \<open>\<^verbatim>\<open>x < y\<close>; every comparison with NaN is false.\<close>

fun flt :: "pyfloat \<Rightarrow> pyfloat \<Rightarrow> bool" where
  "flt (Finite m1 e1) (Finite m2 e2) =
     (let e = min e1 e2 in m1 * 2 ^ nat (e1 - e) < m2 * 2 ^ nat (e2 - e))"
| "flt NaN y = False"
| "flt x NaN = False"
| "flt PosInf y = False"
| "flt x NegInf = False"
| "flt NegInf y = True"
| "flt (Finite m e) PosInf = True"

text \<open>The real number a finite float stands for.\<close>

fun float_value :: "pyfloat \<Rightarrow> real option" where
  "float_value (Finite m e) = Some (of_int m * 2 powi e)"
| "float_value x = None"

text \<open>The values a double can take.\<close>

definition is_double :: "pyfloat \<Rightarrow> bool" where
  "is_double x =
     (case x of Finite m e \<Rightarrow> \<bar>m\<bar> < 2 ^ 53 \<and> - 1074 \<le> e \<and> e \<le> 971 | _ \<Rightarrow> True)"

subsection \<open>Python values\<close>

datatype pyval =
    VNone
  | VBool bool
  | VInt int
  | VFloat pyfloat
  | VStr string
  | VTuple "pyval list"
  | VList "pyval list"
  | VDict "(string \<times> pyval) list"

text \<open>Python's truth value of an object, as tested by \<^verbatim>\<open>if m['is_current']:\<close>.\<close>

fun truthy :: "pyval \<Rightarrow> bool" where
  "truthy VNone = False"
| "truthy (VBool b) = b"
| "truthy (VInt i) = (i \<noteq> 0)"
| "truthy (VFloat x) = (case x of Finite m e \<Rightarrow> m \<noteq> 0 | _ \<Rightarrow> True)"
| "truthy (VStr s) = (s \<noteq> [])"
| "truthy (VTuple xs) = (xs \<noteq> [])"
| "truthy (VList xs) = (xs \<noteq> [])"
| "truthy (VDict kvs) = (kvs \<noteq> [])"

datatype py_error =
    GLibError string
  | UnboundLocalError string
  | ValueError
  | TypeError
  | AttributeError

type_synonym props = "(string \<times> pyval) list"

text \<open>\<^verbatim>\<open>d.get(key, default)\<close> on a dictionary.\<close>

definition dict_get :: "props \<Rightarrow> string \<Rightarrow> pyval \<Rightarrow> pyval" where
  "dict_get d k dflt = (case map_of d k of None \<Rightarrow> dflt | Some v \<Rightarrow> v)"

text \<open>
  The shapes of the reply, following the unpacking patterns of the script:
  a mode is \<^verbatim>\<open>(mode_id, width, height, refresh, scale, scales, mode_props)\<close>,
  a monitor is \<^verbatim>\<open>((connector, vendor, product, serial_num), mode_list, props)\<close>,
  a logical monitor is
  \<^verbatim>\<open>(x, y, scale, transform, is_primary, monitor_configs, lm_props)\<close> with
  \<^verbatim>\<open>monitor_configs\<close> a list of \<^verbatim>\<open>(connector, vendor, product, serial_num)\<close>.
\<close>

type_synonym mode_tuple = "string \<times> int \<times> int \<times> pyfloat \<times> pyfloat \<times> pyfloat list \<times> props"
type_synonym connector_info = "string \<times> string \<times> string \<times> string"
type_synonym monitor = "connector_info \<times> mode_tuple list \<times> props"
type_synonym logical_monitor =
  "int \<times> int \<times> pyfloat \<times> nat \<times> bool \<times> connector_info list \<times> props"
type_synonym current_state = "nat \<times> monitor list \<times> logical_monitor list \<times> props"

text \<open>
  What \<^verbatim>\<open>ApplyMonitorsConfig\<close> receives, signature
  \<^verbatim>\<open>(uua(iiduba(ssa{sv}))a{sv})\<close>: the per-connector entries are
  \<^verbatim>\<open>(connector, mode_id, properties)\<close>.
\<close>

type_synonym monitor_config = "string \<times> string \<times> props"
type_synonym new_logical_monitor =
  "int \<times> int \<times> pyfloat \<times> nat \<times> bool \<times> monitor_config list"

text \<open>The dictionary \<^verbatim>\<open>parse_modes\<close> builds for each mode.\<close>

record monitor_mode =
  connector :: string
  mode_id :: string
  width :: int
  height :: int
  refresh :: pyfloat
  scale :: pyfloat
  scales :: "pyfloat list"
  is_current :: pyval
  is_preferred :: pyval
  props :: props

section \<open>parse\_modes\<close>

definition parse_mode :: "string \<Rightarrow> mode_tuple \<Rightarrow> monitor_mode" where
  "parse_mode conn mode =
     (case mode of (mid, w, h, r, sc, scs, mode_props) \<Rightarrow>
        \<lparr> connector = conn, mode_id = mid, width = w, height = h, refresh = r,
          scale = sc, scales = scs,
          is_current = dict_get mode_props ''is-current'' (VBool False),
          is_preferred = dict_get mode_props ''is-preferred'' (VBool False),
          props = mode_props \<rparr>)"

fun parse_modes :: "monitor list \<Rightarrow> monitor_mode list" where
  "parse_modes [] = []"
| "parse_modes (((conn, vendor, product, serial_num), mode_list, mprops) # monitors) =
     map (parse_mode conn) mode_list @ parse_modes monitors"

subsection \<open>parse\_modes on arbitrary Python values\<close>

text \<open>
  The function itself checks no types. This second embedding follows the same lines
  63--88 over untyped values, so that what happens on an ill-shaped entry is part of the
  model: iterating or unpacking a value that is not iterable raises \<^verbatim>\<open>TypeError\<close>,
  unpacking a sequence of the wrong length raises \<^verbatim>\<open>ValueError\<close>, and
  \<^verbatim>\<open>.get\<close> on a value that is not a dictionary raises \<^verbatim>\<open>AttributeError\<close>.
  Strings iterate over their characters and dictionaries over their keys.
\<close>

fun py_iter :: "pyval \<Rightarrow> py_error + pyval list" where
  "py_iter (VTuple xs) = Inr xs"
| "py_iter (VList xs) = Inr xs"
| "py_iter (VStr s) = Inr (map (\<lambda>c. VStr [c]) s)"
| "py_iter (VDict kvs) = Inr (map (\<lambda>kv. VStr (fst kv)) kvs)"
| "py_iter VNone = Inl TypeError"
| "py_iter (VBool b) = Inl TypeError"
| "py_iter (VInt i) = Inl TypeError"
| "py_iter (VFloat x) = Inl TypeError"

definition unpack :: "nat \<Rightarrow> pyval \<Rightarrow> py_error + pyval list" where
  "unpack n v =
     (case py_iter v of
        Inl e \<Rightarrow> Inl e
      | Inr xs \<Rightarrow> if length xs = n then Inr xs else Inl ValueError)"

fun py_get :: "pyval \<Rightarrow> string \<Rightarrow> pyval \<Rightarrow> py_error + pyval" where
  "py_get (VDict d) k dflt = Inr (dict_get d k dflt)"
| "py_get v k dflt = Inl AttributeError"

definition parse_mode_py :: "pyval \<Rightarrow> pyval \<Rightarrow> py_error + pyval" where
  "parse_mode_py conn mode =
     (case unpack 7 mode of
        Inl e \<Rightarrow> Inl e
      | Inr xs \<Rightarrow>
          (case py_get (xs ! 6) ''is-current'' (VBool False) of
             Inl e \<Rightarrow> Inl e
           | Inr cur \<Rightarrow>
               (case py_get (xs ! 6) ''is-preferred'' (VBool False) of
                  Inl e \<Rightarrow> Inl e
                | Inr pref \<Rightarrow>
                    Inr (VDict
                      [(''connector'', conn), (''mode_id'', xs ! 0), (''width'', xs ! 1),
                       (''height'', xs ! 2), (''refresh'', xs ! 3), (''scale'', xs ! 4),
                       (''scales'', xs ! 5), (''is_current'', cur),
                       (''is_preferred'', pref), (''props'', xs ! 6)]))))"

fun parse_mode_list_py :: "pyval \<Rightarrow> pyval list \<Rightarrow> py_error + pyval list" where
  "parse_mode_list_py conn [] = Inr []"
| "parse_mode_list_py conn (mode # rest) =
     (case parse_mode_py conn mode of
        Inl e \<Rightarrow> Inl e
      | Inr d \<Rightarrow>
          (case parse_mode_list_py conn rest of
             Inl e \<Rightarrow> Inl e
           | Inr ds \<Rightarrow> Inr (d # ds)))"

fun parse_modes_py :: "pyval list \<Rightarrow> py_error + pyval list" where
  "parse_modes_py [] = Inr []"
| "parse_modes_py (monitor # monitors) =
     (case unpack 3 monitor of
        Inl e \<Rightarrow> Inl e
      | Inr parts \<Rightarrow>
          (case unpack 4 (parts ! 0) of
             Inl e \<Rightarrow> Inl e
           | Inr connector_info \<Rightarrow>
               (case py_iter (parts ! 1) of
                  Inl e \<Rightarrow> Inl e
                | Inr mode_list \<Rightarrow>
                    (case parse_mode_list_py (connector_info ! 0) mode_list of
                       Inl e \<Rightarrow> Inl e
                     | Inr ds \<Rightarrow>
                         (case parse_modes_py monitors of
                            Inl e \<Rightarrow> Inl e
                          | Inr rest \<Rightarrow> Inr (ds @ rest))))))"

text \<open>
  The Python values that unpacking a reply of the service yields: structs become tuples,
  arrays become lists, \<^verbatim>\<open>a{sv}\<close> becomes a dictionary.
\<close>

definition enc_mode_tuple :: "mode_tuple \<Rightarrow> pyval" where
  "enc_mode_tuple mode =
     (case mode of (mid, w, h, r, sc, scs, mode_props) \<Rightarrow>
        VTuple [VStr mid, VInt w, VInt h, VFloat r, VFloat sc, VList (map VFloat scs),
                VDict mode_props])"

definition enc_monitor :: "monitor \<Rightarrow> pyval" where
  "enc_monitor mon =
     (case mon of ((conn, vendor, product, serial_num), mode_list, mprops) \<Rightarrow>
        VTuple [VTuple [VStr conn, VStr vendor, VStr product, VStr serial_num],
                VList (map enc_mode_tuple mode_list), VDict mprops])"

definition enc_mode :: "monitor_mode \<Rightarrow> pyval" where
  "enc_mode m =
     VDict [(''connector'', VStr (connector m)), (''mode_id'', VStr (mode_id m)),
            (''width'', VInt (width m)), (''height'', VInt (height m)),
            (''refresh'', VFloat (refresh m)), (''scale'', VFloat (scale m)),
            (''scales'', VList (map VFloat (scales m))), (''is_current'', is_current m),
            (''is_preferred'', is_preferred m), (''props'', VDict (props m))]"

section \<open>The selection loops of set\_refresh\_rate\<close>

text \<open>Lines 132--136: the first mode whose \<^verbatim>\<open>is_current\<close> is true.\<close>

fun find_current :: "monitor_mode list \<Rightarrow> monitor_mode option" where
  "find_current [] = None"
| "find_current (m # ms) = (if truthy (is_current m) then Some m else find_current ms)"

text \<open>
  Lines 143--149: the first mode with the resolution of \<open>current\<close> and a refresh rate
  with \<^verbatim>\<open>abs(m['refresh'] - target_refresh) < 1.0\<close>, computed on doubles: the
  difference is rounded before it is compared with \<^verbatim>\<open>1.0\<close>, which is \<open>Finite 1 0\<close>.
\<close>

fun find_target :: "monitor_mode list \<Rightarrow> monitor_mode \<Rightarrow> pyfloat \<Rightarrow> monitor_mode option" where
  "find_target [] current target_refresh = None"
| "find_target (m # ms) current target_refresh =
     (if width m = width current \<and> height m = height current
         \<and> flt (fabs (fsub (refresh m) target_refresh)) (Finite 1 0)
      then Some m
      else find_target ms current target_refresh)"

section \<open>Rebuilding the logical monitors\<close>

text \<open>
  Lines 179--182, the inner loop over \<open>modes\<close>. The local variable
  \<^verbatim>\<open>mode_str\<close> is assigned only when a mode of the connector with a true
  \<^verbatim>\<open>is_current\<close> is met; otherwise it keeps whatever it held before the loop.
  \<open>None\<close> stands for the variable being unbound.
\<close>

fun keep_current_mode :: "monitor_mode list \<Rightarrow> string \<Rightarrow> string option \<Rightarrow> string option" where
  "keep_current_mode [] conn mode_str = mode_str"
| "keep_current_mode (m # ms) conn mode_str =
     (if connector m = conn \<and> truthy (is_current m) then Some (mode_id m)
      else keep_current_mode ms conn mode_str)"

text \<open>Lines 175--182: the value of \<^verbatim>\<open>mode_str\<close> after the if/else.\<close>

definition assign_mode_str ::
  "monitor_mode list \<Rightarrow> monitor_mode \<Rightarrow> string \<Rightarrow> string option \<Rightarrow> string option" where
  "assign_mode_str modes target conn mode_str =
     (if conn = connector target then Some (mode_id target)
      else keep_current_mode modes conn mode_str)"

text \<open>
  Lines 170--184, the loop over \<^verbatim>\<open>monitor_configs\<close>. Reading \<^verbatim>\<open>mode_str\<close>
  in line 184 while it is unbound raises \<^verbatim>\<open>UnboundLocalError\<close>. The variable
  outlives the loop, so its value is returned with the new entries.
\<close>

fun build_monitor_configs ::
  "connector_info list \<Rightarrow> monitor_mode list \<Rightarrow> monitor_mode \<Rightarrow> string option
     \<Rightarrow> py_error + (monitor_config list \<times> string option)" where
  "build_monitor_configs [] modes target mode_str = Inr ([], mode_str)"
| "build_monitor_configs ((conn, vendor, product, serial_num) # mcs) modes target mode_str =
     (case assign_mode_str modes target conn mode_str of
        None \<Rightarrow> Inl (UnboundLocalError ''mode_str'')
      | Some s \<Rightarrow>
          (case build_monitor_configs mcs modes target (Some s) of
             Inl e \<Rightarrow> Inl e
           | Inr (rest, mode_str') \<Rightarrow> Inr ((conn, s, []) # rest, mode_str')))"

text \<open>Lines 167--186, the loop over \<^verbatim>\<open>logical_monitors\<close>.\<close>

fun build_logical_monitors ::
  "logical_monitor list \<Rightarrow> monitor_mode list \<Rightarrow> monitor_mode \<Rightarrow> string option
     \<Rightarrow> py_error + new_logical_monitor list" where
  "build_logical_monitors [] modes target mode_str = Inr []"
| "build_logical_monitors ((x, y, sc, transform, is_primary, monitor_configs, lm_props) # lms)
       modes target mode_str =
     (case build_monitor_configs monitor_configs modes target mode_str of
        Inl e \<Rightarrow> Inl e
      | Inr (new_monitor_configs, mode_str') \<Rightarrow>
          (case build_logical_monitors lms modes target mode_str' of
             Inl e \<Rightarrow> Inl e
           | Inr rest \<Rightarrow>
               Inr ((x, y, sc, transform, is_primary, new_monitor_configs) # rest)))"

text \<open>Line 165 onwards: \<^verbatim>\<open>mode_str\<close> is unbound when the rebuild starts.\<close>

definition new_logical_monitors ::
  "logical_monitor list \<Rightarrow> monitor_mode list \<Rightarrow> monitor_mode
     \<Rightarrow> py_error + new_logical_monitor list" where
  "new_logical_monitors lms modes target = build_logical_monitors lms modes target None"

section \<open>The service, printing and the calls made\<close>

text \<open>
  The service is outside the script. A run sees it through three answers: whether the
  proxy can be created, the reply (or fault) of \<^verbatim>\<open>GetCurrentState\<close>, and the
  reply of \<^verbatim>\<open>ApplyMonitorsConfig\<close> to the parameters sent (\<open>None\<close> for success,
  a fault message otherwise). Faults arrive in Python as \<^verbatim>\<open>GLib.Error\<close>.
\<close>

type_synonym apply_params = "nat \<times> nat \<times> new_logical_monitor list \<times> props"

record service =
  proxy_fault :: "string option"
  state_reply :: "string + current_state"
  apply_reply :: "apply_params \<Rightarrow> string option"

datatype marker = NoMarker | CurrentMarker | PreferredMarker

text \<open>The lines the script prints; formatted numbers are kept as numbers.\<close>

datatype message =
    Usage
  | AvailableModes
  | ModeLine string int int pyfloat marker
  | CurrentModeLine int int pyfloat
  | CouldNotDetect
  | ErrNoCurrentMode
  | ErrModeNotFound int int pyfloat
  | AvailableRefreshRates
  | RateLine pyfloat
  | AlreadyAt pyfloat
  | RefreshRateSet pyfloat
  | ErrApplyingConfig py_error
  | InvalidArgument string

datatype event =
    Print message
  | GetCurrentState
  | ApplyMonitorsConfig apply_params

definition get_display_config_proxy :: "service \<Rightarrow> py_error + unit" where
  "get_display_config_proxy svc =
     (case proxy_fault svc of None \<Rightarrow> Inr () | Some e \<Rightarrow> Inl (GLibError e))"

definition get_current_state :: "service \<Rightarrow> (py_error + current_state) \<times> event list" where
  "get_current_state svc =
     (case state_reply svc of
        Inl e \<Rightarrow> (Inl (GLibError e), [GetCurrentState])
      | Inr st \<Rightarrow> (Inr st, [GetCurrentState]))"

text \<open>Lines 43--61: \<^verbatim>\<open>method = 1\<close> and the default \<^verbatim>\<open>properties={}\<close>.\<close>

definition apply_config ::
  "service \<Rightarrow> nat \<Rightarrow> new_logical_monitor list \<Rightarrow> (py_error + unit) \<times> event list" where
  "apply_config svc serial logical_monitors =
     (let params = (serial, 1, logical_monitors, []) in
      case apply_reply svc params of
        None \<Rightarrow> (Inr (), [ApplyMonitorsConfig params])
      | Some e \<Rightarrow> (Inl (GLibError e), [ApplyMonitorsConfig params]))"

section \<open>list\_modes and get\_current\_mode\<close>

definition mode_line :: "monitor_mode \<Rightarrow> message" where
  "mode_line m =
     ModeLine (connector m) (width m) (height m) (refresh m)
       (if truthy (is_current m) then CurrentMarker
        else if truthy (is_preferred m) then PreferredMarker
        else NoMarker)"

text \<open>The value of \<^verbatim>\<open>current_mode\<close> after the loop: the last mode flagged current.\<close>

fun last_current :: "monitor_mode list \<Rightarrow> monitor_mode option \<Rightarrow> monitor_mode option" where
  "last_current [] current_mode = current_mode"
| "last_current (m # ms) current_mode =
     last_current ms (if truthy (is_current m) then Some m else current_mode)"

definition list_modes :: "service \<Rightarrow> (py_error + monitor_mode option) \<times> event list" where
  "list_modes svc =
     (case get_display_config_proxy svc of
        Inl e \<Rightarrow> (Inl e, [])
      | Inr _ \<Rightarrow>
          (case get_current_state svc of
             (Inl e, evs) \<Rightarrow> (Inl e, evs)
           | (Inr (serial, monitors, logical_monitors, properties), evs) \<Rightarrow>
               (let modes = parse_modes monitors in
                (Inr (last_current modes None),
                 evs @ [Print AvailableModes] @ map (\<lambda>m. Print (mode_line m)) modes))))"

definition get_current_mode :: "service \<Rightarrow> (py_error + monitor_mode option) \<times> event list" where
  "get_current_mode svc =
     (case get_display_config_proxy svc of
        Inl e \<Rightarrow> (Inl e, [])
      | Inr _ \<Rightarrow>
          (case get_current_state svc of
             (Inl e, evs) \<Rightarrow> (Inl e, evs)
           | (Inr (serial, monitors, logical_monitors, properties), evs) \<Rightarrow>
               (Inr (find_current (parse_modes monitors)), evs)))"

section \<open>set\_refresh\_rate\<close>

text \<open>
  Lines 124--195. The result is the returned boolean, or the exception that leaves the
  function, together with the calls made and the lines printed, in order. Only the call
  of \<^verbatim>\<open>apply_config\<close> is inside the \<^verbatim>\<open>try\<close>.
\<close>

definition same_resolution :: "monitor_mode \<Rightarrow> monitor_mode \<Rightarrow> bool" where
  "same_resolution current m \<longleftrightarrow> width m = width current \<and> height m = height current"

definition set_refresh_rate :: "service \<Rightarrow> pyfloat \<Rightarrow> (py_error + bool) \<times> event list" where
  "set_refresh_rate svc target_refresh =
     (case get_display_config_proxy svc of
        Inl e \<Rightarrow> (Inl e, [])
      | Inr _ \<Rightarrow>
     (case get_current_state svc of
        (Inl e, evs) \<Rightarrow> (Inl e, evs)
      | (Inr (serial, monitors, logical_monitors, properties), evs) \<Rightarrow>
     (let modes = parse_modes monitors in
      case find_current modes of
        None \<Rightarrow> (Inr False, evs @ [Print ErrNoCurrentMode])
      | Some current \<Rightarrow>
     (case find_target modes current target_refresh of
        None \<Rightarrow>
          (Inr False,
           evs @ [Print (ErrModeNotFound (width current) (height current) target_refresh),
                  Print AvailableRefreshRates]
               @ map (\<lambda>m. Print (RateLine (refresh m)))
                   (filter (same_resolution current) modes))
      | Some target \<Rightarrow>
          if truthy (is_current target) then
            (Inr True, evs @ [Print (AlreadyAt target_refresh)])
          else
     (case new_logical_monitors logical_monitors modes target of
        Inl e \<Rightarrow> (Inl e, evs)
      | Inr new_lms \<Rightarrow>
     (case apply_config svc serial new_lms of
        (Inr _, evs') \<Rightarrow> (Inr True, evs @ evs' @ [Print (RefreshRateSet (refresh target))])
      | (Inl e, evs') \<Rightarrow>
          (Inr False,
           evs @ evs' @ [Print (ErrApplyingConfig e)])))))))"

section \<open>main\<close>

text \<open>
  Lines 197--227. \<open>py_float\<close> is Python's \<^verbatim>\<open>float(arg)\<close>, \<open>None\<close> where it raises
  \<^verbatim>\<open>ValueError\<close>. The \<^verbatim>\<open>try\<close> also encloses the call of
  \<^verbatim>\<open>set_refresh_rate\<close>, so a \<^verbatim>\<open>ValueError\<close> leaving it is handled the same way.
\<close>

definition main ::
  "(string \<Rightarrow> pyfloat option) \<Rightarrow> service \<Rightarrow> string list \<Rightarrow> (py_error + int) \<times> event list" where
  "main py_float svc argv =
     (if length argv < 2 then (Inr 1, [Print Usage])
      else
        let arg = argv ! 1 in
        if arg = ''--list'' then
          (case list_modes svc of
             (Inl e, evs) \<Rightarrow> (Inl e, evs)
           | (Inr _, evs) \<Rightarrow> (Inr 0, evs))
        else if arg = ''--current'' then
          (case get_current_mode svc of
             (Inl e, evs) \<Rightarrow> (Inl e, evs)
           | (Inr (Some m), evs) \<Rightarrow>
               (Inr 0, evs @ [Print (CurrentModeLine (width m) (height m) (refresh m))])
           | (Inr None, evs) \<Rightarrow> (Inr 0, evs @ [Print CouldNotDetect]))
        else
          (case py_float arg of
             None \<Rightarrow> (Inr 1, [Print (InvalidArgument arg), Print Usage])
           | Some target_refresh \<Rightarrow>
               (case set_refresh_rate svc target_refresh of
                  (Inr True, evs) \<Rightarrow> (Inr 0, evs)
                | (Inr False, evs) \<Rightarrow> (Inr 1, evs)
                | (Inl ValueError, evs) \<Rightarrow>
                    (Inr 1, evs @ [Print (InvalidArgument arg), Print Usage])
                | (Inl e, evs) \<Rightarrow> (Inl e, evs))))"

text \<open>
  \<^verbatim>\<open>sys.exit(main())\<close>: the process ends with the code \<open>main\<close> returns, or with an
  uncaught exception (a traceback).
\<close>

datatype outcome = Exited int | Crashed py_error

definition run ::
  "(string \<Rightarrow> pyfloat option) \<Rightarrow> service \<Rightarrow> string list \<Rightarrow> outcome \<times> event list" where
  "run py_float svc argv =
     (case main py_float svc argv of
        (Inr code, evs) \<Rightarrow> (Exited code, evs)
      | (Inl e, evs) \<Rightarrow> (Crashed e, evs))"

section \<open>Notions used to state the properties\<close>

text \<open>The connectors a fetched logical monitor references, in order.\<close>

definition connectors_of :: "logical_monitor \<Rightarrow> string list" where
  "connectors_of lm =
     (case lm of (x, y, sc, transform, is_primary, monitor_configs, lm_props) \<Rightarrow>
        map fst monitor_configs)"

definition referenced_connectors :: "logical_monitor list \<Rightarrow> string list" where
  "referenced_connectors lms = concat (map connectors_of lms)"

text \<open>The per-connector entries of a rebuilt logical monitor, in order.\<close>

definition entries_of :: "new_logical_monitor \<Rightarrow> monitor_config list" where
  "entries_of lm =
     (case lm of (x, y, sc, transform, is_primary, monitor_configs) \<Rightarrow> monitor_configs)"

definition submitted_entries :: "new_logical_monitor list \<Rightarrow> monitor_config list" where
  "submitted_entries lms = concat (map entries_of lms)"

definition entry_mode_id :: "monitor_config \<Rightarrow> string" where
  "entry_mode_id e = fst (snd e)"

definition entry_props :: "monitor_config \<Rightarrow> props" where
  "entry_props e = snd (snd e)"

text \<open>
  A fresh lookup in the parsed list: the first mode of the connector whose
  \<^verbatim>\<open>is_current\<close> is true.
\<close>

definition current_mode_of :: "monitor_mode list \<Rightarrow> string \<Rightarrow> monitor_mode option" where
  "current_mode_of modes conn =
     List.find (\<lambda>m. connector m = conn \<and> truthy (is_current m)) modes"

text \<open>
  The successive values of \<^verbatim>\<open>mode_str\<close> at line 184 while the connectors
  \<open>conns\<close> are processed one after the other, starting from \<open>mode_str\<close>.
\<close>

fun mode_strs ::
  "monitor_mode list \<Rightarrow> monitor_mode \<Rightarrow> string list \<Rightarrow> string option \<Rightarrow> string option list" where
  "mode_strs modes target [] mode_str = []"
| "mode_strs modes target (conn # conns) mode_str =
     assign_mode_str modes target conn mode_str
       # mode_strs modes target conns (assign_mode_str modes target conn mode_str)"

text \<open>The fields of a logical monitor that line 186 copies.\<close>

definition placement :: "logical_monitor \<Rightarrow> int \<times> int \<times> pyfloat \<times> nat \<times> bool" where
  "placement lm =
     (case lm of (x, y, sc, transform, is_primary, monitor_configs, lm_props) \<Rightarrow>
        (x, y, sc, transform, is_primary))"

definition new_placement :: "new_logical_monitor \<Rightarrow> int \<times> int \<times> pyfloat \<times> nat \<times> bool" where
  "new_placement lm =
     (case lm of (x, y, sc, transform, is_primary, monitor_configs) \<Rightarrow>
        (x, y, sc, transform, is_primary))"

definition with_lm_props :: "props \<Rightarrow> logical_monitor \<Rightarrow> logical_monitor" where
  "with_lm_props q lm =
     (case lm of (x, y, sc, transform, is_primary, monitor_configs, lm_props) \<Rightarrow>
        (x, y, sc, transform, is_primary, monitor_configs, q))"

definition is_apply :: "event \<Rightarrow> bool" where
  "is_apply ev = (case ev of ApplyMonitorsConfig params \<Rightarrow> True | _ \<Rightarrow> False)"

text \<open>
  Shapes of untyped input to \<open>parse_modes_py\<close>. A value unpacks into \<open>n\<close> parts when
  iterating it yields \<open>n\<close> elements. A mode entry is well-shaped when it unpacks into
  seven parts the last of which is a dictionary; a monitor entry when it unpacks into
  three parts, the first unpacks into four, and the second can be iterated and yields
  well-shaped mode entries. \<open>mode_count\<close> is the number of mode entries of a monitor
  entry.
\<close>

definition is_dict :: "pyval \<Rightarrow> bool" where
  "is_dict v = (case v of VDict d \<Rightarrow> True | _ \<Rightarrow> False)"

definition unpacks_into :: "nat \<Rightarrow> pyval \<Rightarrow> bool" where
  "unpacks_into n v = (case py_iter v of Inl e \<Rightarrow> False | Inr xs \<Rightarrow> length xs = n)"

definition well_shaped_mode :: "pyval \<Rightarrow> bool" where
  "well_shaped_mode v =
     (case py_iter v of Inl e \<Rightarrow> False | Inr xs \<Rightarrow> length xs = 7 \<and> is_dict (xs ! 6))"

definition well_shaped_monitor :: "pyval \<Rightarrow> bool" where
  "well_shaped_monitor v =
     (case py_iter v of
        Inl e \<Rightarrow> False
      | Inr parts \<Rightarrow>
          length parts = 3 \<and> unpacks_into 4 (parts ! 0)
          \<and> (case py_iter (parts ! 1) of
                Inl e \<Rightarrow> False
              | Inr mode_list \<Rightarrow> list_all well_shaped_mode mode_list))"

definition mode_count :: "pyval \<Rightarrow> nat" where
  "mode_count v =
     (case py_iter v of
        Inl e \<Rightarrow> 0
      | Inr parts \<Rightarrow>
          (case py_iter (parts ! 1) of Inl e \<Rightarrow> 0 | Inr mode_list \<Rightarrow> length mode_list))"

section \<open>Example states\<close>

text \<open>
  One connector \<^verbatim>\<open>DP-1\<close> at 1920x1080 with a 60 Hz mode (current) and a 240 Hz
  mode; a second connector \<^verbatim>\<open>HDMI-1\<close> none of whose modes is flagged current.
\<close>

definition mode60 :: mode_tuple where
  "mode60 = (''1920x1080@60'', 1920, 1080, Finite 60 0, Finite 1 0, [Finite 1 0, Finite 2 0],
             [(''is-current'', VBool True), (''is-preferred'', VBool True)])"

definition mode240 :: mode_tuple where
  "mode240 = (''1920x1080@240'', 1920, 1080, Finite 240 0, Finite 1 0,
               [Finite 1 0, Finite 2 0], [])"

text \<open>The double nearest to 59.94 is \<open>1054475631502295 / 2 ^ 44\<close>.\<close>

definition mode5994 :: mode_tuple where
  "mode5994 = (''1920x1080@59.94'', 1920, 1080, Finite 1054475631502295 (- 44),
                Finite 1 0, [Finite 1 0, Finite 2 0], [])"

definition hdmi_mode :: mode_tuple where
  "hdmi_mode = (''1280x720@60'', 1280, 720, Finite 60 0, Finite 1 0, [Finite 1 0], [])"

definition hdmi_mode_current :: mode_tuple where
  "hdmi_mode_current =
     (''1280x720@60'', 1280, 720, Finite 60 0, Finite 1 0, [Finite 1 0],
      [(''is-current'', VBool True)])"

definition dp1 :: connector_info where
  "dp1 = (''DP-1'', ''VND'', ''Panel'', ''0x01'')"

definition hdmi1 :: connector_info where
  "hdmi1 = (''HDMI-1'', ''VND'', ''Beamer'', ''0x02'')"

definition dp1_monitor :: monitor where
  "dp1_monitor = (dp1, [mode60, mode240], [(''is-builtin'', VBool False)])"

definition hdmi1_monitor :: monitor where
  "hdmi1_monitor = (hdmi1, [hdmi_mode], [])"

definition m60 :: monitor_mode where
  "m60 = parse_mode ''DP-1'' mode60"

definition m240 :: monitor_mode where
  "m240 = parse_mode ''DP-1'' mode240"

definition one_output_state :: current_state where
  "one_output_state =
     (7, [dp1_monitor], [(0, 0, Finite 1 0, 0, True, [dp1], [(''legacy'', VBool True)])], [])"

definition two_output_state :: "connector_info list \<Rightarrow> current_state" where
  "two_output_state monitor_configs =
     (7, [dp1_monitor, hdmi1_monitor], [(0, 0, Finite 1 0, 0, True, monitor_configs, [])], [])"

definition near_rates_state :: current_state where
  "near_rates_state =
     (7, [(dp1, [mode5994, mode60], [])], [(0, 0, Finite 1 0, 0, True, [dp1], [])], [])"

definition service_with :: "current_state \<Rightarrow> string option \<Rightarrow> service" where
  "service_with st answer =
     \<lparr> proxy_fault = None, state_reply = Inr st, apply_reply = (\<lambda>params. answer) \<rparr>"

text \<open>
  Python's \<^verbatim>\<open>float\<close> on the argument strings used in the examples; any other
  string stands for one that \<^verbatim>\<open>float\<close> rejects.
\<close>

definition float_of_arg :: "string \<Rightarrow> pyfloat option" where
  "float_of_arg arg =
     (if arg = ''240'' then Some (Finite 240 0) else if arg = ''60'' then Some (Finite 60 0)
      else if arg = ''61'' then Some (Finite 61 0) else None)"

section \<open>Float arithmetic\<close>

lemma div_lt_pow:
  fixes a :: int
  assumes "a div 2 ^ s < 2 ^ k"
  shows "a < 2 ^ (s + k)"
proof (rule ccontr)
  assume "\<not> a < 2 ^ (s + k)"
  then have "(2::int) ^ (s + k) \<le> a" by simp
  then have "(2::int) ^ (s + k) div 2 ^ s \<le> a div 2 ^ s"
    by (rule zdiv_mono1) simp
  moreover have "(2::int) ^ (s + k) div 2 ^ s = 2 ^ k"
    by (simp add: power_add)
  ultimately show False using assms by simp
qed

lemma round_half_even_ge: "a div 2 ^ s \<le> round_half_even a s"
  by (simp add: round_half_even_def Let_def)

lemma finite_diff_value:
  assumes "e \<le> e1" and "e \<le> e2"
  shows "of_int m1 * 2 powi e1 - of_int m2 * 2 powi e2
           = (of_int (m1 * 2 ^ nat (e1 - e) - m2 * 2 ^ nat (e2 - e)) :: real) * 2 powi e"
proof -
  have p: "\<And>k. e \<le> k \<Longrightarrow> (2::real) powi k = 2 ^ nat (k - e) * 2 powi e"
  proof -
    fix k :: int assume "e \<le> k"
    have "(2::real) powi k = 2 powi ((k - e) + e)" by simp
    also have "\<dots> = 2 powi (k - e) * 2 powi e"
      by (rule power_int_add) simp
    also have "(2::real) powi (k - e) = 2 ^ nat (k - e)"
      using \<open>e \<le> k\<close> by (simp add: power_int_nonneg_exp)
    finally show "(2::real) powi k = 2 ^ nat (k - e) * 2 powi e" .
  qed
  show ?thesis
    by (simp add: p [OF assms(1)] p [OF assms(2)] algebra_simps)
qed

lemma flt_one:
  "flt (Finite Q e') (Finite 1 0) \<longleftrightarrow>
     (if 0 \<le> e' then Q * 2 ^ nat e' < 1 else Q < 2 ^ nat (- e'))"
  by (auto simp add: Let_def min_def)

lemma rounded_below_one:
  assumes r: "round_double M e = Finite q e'"
    and lt: "flt (Finite \<bar>q\<bar> e') (Finite 1 0)"
  shows "\<bar>of_int M :: real\<bar> * 2 powi e < 1"
proof -
  define a where "a = \<bar>M\<bar>"
  define s where "s = nat (max (bitlen a - 53) (- 1074 - e))"
  define Q where "Q = round_half_even a s"
  from r have q: "q = sgn M * Q" and e': "e' = e + int s"
    by (auto simp add: round_double_def Let_def a_def s_def Q_def split: if_splits)
  have a0: "0 \<le> a" by (simp add: a_def)
  have fl: "a div 2 ^ s \<le> Q" unfolding Q_def by (rule round_half_even_ge)
  have Q0: "0 \<le> Q" using fl a0 by (smt (verit) pos_imp_zdiv_nonneg_iff zero_less_power)
  have absq: "M \<noteq> 0 \<Longrightarrow> \<bar>q\<bar> = Q" using q Q0 by (simp add: abs_mult abs_sgn_eq)
  show ?thesis
  proof (cases "M = 0")
    case True
    then show ?thesis by simp
  next
    case False
    then have apos: "0 < a" by (simp add: a_def)
    from False absq have aq: "\<bar>q\<bar> = Q" by simp
    show ?thesis
    proof (cases "0 \<le> e'")
      case True
      with lt aq have "Q * 2 ^ nat e' < 1" by (simp add: flt_one)
      moreover have "(1::int) \<le> 2 ^ nat e'" by simp
      ultimately have "Q < 1"
        by (smt (verit, best) Q0 mult_le_cancel_left1 mult.commute mult_left_mono)
      with Q0 have "Q = 0" by simp
      with fl have "a div 2 ^ s \<le> 0" by simp
      then have "a div 2 ^ s < 2 ^ 0" by simp
      from div_lt_pow [OF this] have as: "a < 2 ^ s" by simp
      from bitlen_bounds [OF apos] have lo: "2 ^ nat (bitlen a - 1) \<le> a" by blast
      have b1: "1 \<le> bitlen a" using apos by (simp add: bitlen_alt_def)
      from as lo have "(2::int) ^ nat (bitlen a - 1) < 2 ^ s" by linarith
      then have "nat (bitlen a - 1) < s"
        using power_less_imp_less_exp [of "2::int" "nat (bitlen a - 1)" s] by simp
      with b1 have "bitlen a - 53 < int s" by simp
      moreover from True e' have "- 1074 - e < int s \<or> s = 0" by simp
      ultimately have False using \<open>nat (bitlen a - 1) < s\<close>
        unfolding s_def by (simp add: max_def split: if_splits)
      then show ?thesis ..
    next
      case False
      then have neg: "e' < 0" by simp
      with lt aq have "Q < 2 ^ nat (- e')" by (simp add: flt_one)
      with fl have "a div 2 ^ s < 2 ^ nat (- e')" by simp
      from div_lt_pow [OF this] have "a < 2 ^ (s + nat (- e'))" .
      moreover have "s + nat (- e') = nat (- e)" using neg e' by simp
      ultimately have lt': "a < 2 ^ nat (- e)" by simp
      have eneg: "e < 0" using neg e' by simp
      have "(2::real) powi e = 1 / 2 ^ nat (- e)"
        using eneg power_int_minus_divide [of "2::real" "- e"]
        by (simp add: power_int_nonneg_exp)
      moreover have "(of_int a :: real) < 2 ^ nat (- e)"
        using lt' by (metis of_int_less_iff of_int_numeral of_int_power)
      ultimately show ?thesis
        by (simp add: a_def [symmetric] flip: of_int_abs) 
    qed
  qed
qed


lemma rate_test_sound:
  assumes "flt (fabs (fsub a b)) (Finite 1 0)"
  shows "\<exists>x y. float_value a = Some x \<and> float_value b = Some y \<and> \<bar>x - y\<bar> < 1"
proof -
  from assms obtain m1 e1 m2 e2 where a: "a = Finite m1 e1" and b: "b = Finite m2 e2"
    by (cases a; cases b) simp_all
  define e where "e = min e1 e2"
  define M where "M = m1 * 2 ^ nat (e1 - e) - m2 * 2 ^ nat (e2 - e)"
  have sub: "fsub a b = round_double M e"
    by (simp add: a b Let_def e_def M_def)
  with assms obtain q e' where r: "round_double M e = Finite q e'"
    and lt: "flt (Finite \<bar>q\<bar> e') (Finite 1 0)"
    by (cases "round_double M e") simp_all
  from rounded_below_one [OF r lt] have "\<bar>of_int M :: real\<bar> * 2 powi e < 1" .
  moreover have "of_int m1 * 2 powi e1 - of_int m2 * 2 powi e2 = (of_int M :: real) * 2 powi e"
    unfolding M_def by (rule finite_diff_value) (simp_all add: e_def)
  ultimately have "\<bar>of_int m1 * 2 powi e1 - of_int m2 * (2::real) powi e2\<bar> < 1"
    by (simp add: abs_mult)
  then show ?thesis by (simp add: a b)
qed

lemma round_half_even_0: "round_half_even a 0 = a"
  by (simp add: round_half_even_def)

lemma round_double_exact:
  assumes "\<bar>M\<bar> < 2 ^ 53" and "- 1074 \<le> e" and "e \<le> 971"
  shows "round_double M e = Finite M e"
proof -
  have "bitlen \<bar>M\<bar> \<le> 53"
    using assms(1) by (simp add: bitlen_le_iff_power)
  with assms(2) have s: "nat (max (bitlen \<bar>M\<bar> - 53) (- 1074 - e)) = 0" by simp
  have "\<not> overflows \<bar>M\<bar> e"
    using assms(1,3) by (cases "e = 971") (simp_all add: overflows_def)
  moreover have "sgn M * \<bar>M\<bar> = M" by (simp add: mult_sgn_abs)
  ultimately show ?thesis
    unfolding round_double_def Let_def s round_half_even_0 by simp
qed

lemma bitlen_tie: "bitlen 18014398509481983 = 54"
  by (simp add: compute_bitlen)

lemma round_double_tie:
  "round_double 18014398509481983 (- 54) = Finite 9007199254740992 (- 53)"
  by (simp add: round_double_def Let_def bitlen_tie round_half_even_def overflows_def)

lemma round_half_even_le: "round_half_even a s \<le> a div 2 ^ s + 1"
  by (simp add: round_half_even_def Let_def)

lemma round_half_even_floor:
  "2 * (a mod 2 ^ s) < 2 ^ s \<Longrightarrow> round_half_even a s = a div 2 ^ s"
  by (simp add: round_half_even_def Let_def)

lemma real_lt_pow_int:
  assumes "(of_int A :: real) * 2 powi e < 2 powi k"
  shows "A < 2 ^ nat (k - e) \<or> k < e"
proof (cases "k < e")
  case True
  then show ?thesis by simp
next
  case False
  then have ke: "e \<le> k" by simp
  have "(2::real) powi k = 2 ^ nat (k - e) * 2 powi e"
  proof -
    have "(2::real) powi k = 2 powi ((k - e) + e)" by simp
    also have "\<dots> = 2 powi (k - e) * 2 powi e" by (rule power_int_add) simp
    also have "(2::real) powi (k - e) = 2 ^ nat (k - e)"
      using ke by (simp add: power_int_nonneg_exp)
    finally show ?thesis .
  qed
  with assms have "(of_int A :: real) * 2 powi e < 2 ^ nat (k - e) * 2 powi e" by simp
  moreover have "(0::real) < 2 powi e" by (simp add: zero_less_power_int)
  ultimately have "(of_int A :: real) < 2 ^ nat (k - e)" by simp
  then have "A < 2 ^ nat (k - e)"
    by (metis of_int_less_iff of_int_numeral of_int_power)
  then show ?thesis by simp
qed


lemma div_pow_lt:
  fixes a :: int
  assumes "a < 2 ^ (s + k)"
  shows "a div 2 ^ s < 2 ^ k"
proof (rule ccontr)
  assume "\<not> a div 2 ^ s < 2 ^ k"
  then have "(2::int) ^ k \<le> a div 2 ^ s" by simp
  then have "(2::int) ^ k * 2 ^ s \<le> a div 2 ^ s * 2 ^ s"
    by (rule mult_right_mono) simp
  moreover have "a = a div 2 ^ s * 2 ^ s + a mod 2 ^ s"
    by (rule div_mult_mod_eq [symmetric])
  moreover have "0 \<le> a mod (2::int) ^ s" by simp
  ultimately have "(2::int) ^ k * 2 ^ s \<le> a" by linarith
  with assms show False by (simp add: power_add mult.commute)
qed

lemma rounded_passes_int:
  assumes M: "M \<noteq> 0" and e: "e < 0" "- 1074 \<le> e"
    and lt: "\<bar>M\<bar> < 2 ^ nat (- e)"
    and margin: "54 \<le> - e \<longrightarrow> \<bar>M\<bar> < 2 ^ nat (- e) - 2 ^ nat (- e - 54)"
  shows "\<exists>q e'. round_double M e = Finite q e' \<and> flt (Finite \<bar>q\<bar> e') (Finite 1 0)"
proof -
  define A where "A = \<bar>M\<bar>"
  define n where "n = bitlen A"
  define s where "s = nat (max (n - 53) (- 1074 - e))"
  define Q where "Q = round_half_even A s"
  have Apos: "0 < A" using M by (simp add: A_def)
  have n1: "1 \<le> n" using Apos by (simp add: n_def bitlen_alt_def)
  from bitlen_bounds [OF Apos] have lo: "2 ^ nat (n - 1) \<le> A" and hi: "A < 2 ^ nat n"
    by (simp_all add: n_def)
  from lo lt have "(2::int) ^ nat (n - 1) < 2 ^ nat (- e)"
    unfolding A_def by linarith
  then have "nat (n - 1) < nat (- e)"
    using power_less_imp_less_exp [of "2::int" "nat (n - 1)" "nat (- e)"] by simp
  with n1 e have ne: "n \<le> - e" by simp
  have fl: "A div 2 ^ s \<le> Q" unfolding Q_def by (rule round_half_even_ge)
  have Q0: "0 \<le> Q" using fl Apos
    by (smt (verit) pos_imp_zdiv_nonneg_iff zero_less_power)
  have e's: "e + int s < 0 \<and> e + int s < 971"
    using ne e n1 by (auto simp add: s_def max_def)
  have rd: "round_double M e = Finite (sgn M * Q) (e + int s)"
    using e's by (simp add: round_double_def Let_def overflows_def A_def n_def s_def Q_def)
  have absq: "\<bar>sgn M * Q\<bar> = Q" using M Q0 by (simp add: abs_mult abs_sgn_eq)
  have "Q < 2 ^ nat (- (e + int s))"
  proof (cases "n \<le> 53")
    case True
    with e have "s = 0" by (simp add: s_def)
    then show ?thesis using lt by (simp add: Q_def round_half_even_0 A_def)
  next
    case False
    then have s: "int s = n - 53" and spos: "0 < s" using e by (simp_all add: s_def)
    have "nat n = s + 53" using s False by simp
    with hi have "A < 2 ^ (s + 53)" by simp
    then have flt53: "A div 2 ^ s < 2 ^ 53" by (rule div_pow_lt)
    have Qle: "Q \<le> A div 2 ^ s + 1" unfolding Q_def by (rule round_half_even_le)
    show ?thesis
    proof (cases "n < - e")
      case True
      then have "54 \<le> nat (- (e + int s))" using s by simp
      then have "(2::int) ^ 54 \<le> 2 ^ nat (- (e + int s))"
        by (rule power_increasing) simp
      moreover from flt53 Qle have "Q < 2 ^ 54" by simp
      ultimately show ?thesis by linarith
    next
      case False
      with ne have eq: "n = - e" by simp
      then have ex: "nat (- (e + int s)) = 53" using s by simp
      show ?thesis
      proof (cases "A div 2 ^ s < 2 ^ 53 - 1")
        case True
        with Qle have "Q < 2 ^ 53" by simp
        then show ?thesis by (simp only: ex)
      next
        case False
        with flt53 have fl_eq: "A div 2 ^ s = 2 ^ 53 - 1" by simp
        define h :: int where "h = 2 ^ (s - 1)"
        have two_s: "(2::int) ^ s = 2 * h"
          using spos by (simp add: h_def power_eq_if)
        have "54 \<le> - e" using eq \<open>\<not> n \<le> 53\<close> by simp
        with margin have m: "A < 2 ^ nat (- e) - 2 ^ nat (- e - 54)" by (simp add: A_def)
        have "nat (- e) = s + 53" using eq s \<open>\<not> n \<le> 53\<close> by simp
        moreover have "nat (- e - 54) = s - 1" using eq s \<open>\<not> n \<le> 53\<close> by simp
        ultimately have "A < 2 ^ (s + 53) - h" using m by (simp add: h_def)
        then have m': "A < 2 ^ 53 * (2 * h) - h" by (simp add: power_add two_s mult.commute)
        define r where "r = A mod 2 ^ s"
        have "A = A div 2 ^ s * 2 ^ s + r"
          unfolding r_def by (rule div_mult_mod_eq [symmetric])
        then have "A = (2 ^ 53 - 1) * 2 ^ s + r" by (simp only: fl_eq)
        then have "A = (2 ^ 53 - 1) * (2 * h) + r" by (simp only: two_s)
        with m' have "r < h" by (simp add: algebra_simps)
        then have "2 * r < 2 ^ s" by (simp add: two_s)
        then have "Q = A div 2 ^ s"
          unfolding Q_def r_def by (rule round_half_even_floor)
        with flt53 have "Q < 2 ^ 53" by simp
        then show ?thesis by (simp only: ex)
      qed
    qed
  qed
  then have "flt (Finite \<bar>sgn M * Q\<bar> (e + int s)) (Finite 1 0)"
    using e's by (simp add: flt_one absq)
  with rd show ?thesis by blast
qed


lemma margin_int:
  assumes "(of_int A :: real) * 2 powi e < 1 - 2 powi (- 54)" and "54 \<le> - e"
  shows "A < 2 ^ nat (- e) - 2 ^ nat (- e - 54)"
proof -
  define k where "k = nat (- e - 54)"
  have ke: "nat (- e) = k + 54" using assms(2) by (simp add: k_def)
  have pe: "(2::real) powi e = 1 / 2 ^ (k + 54)"
    using power_int_minus_divide [of "2::real" "- e"] assms(2)
    by (simp add: power_int_nonneg_exp ke)
  have p54: "(2::real) powi (- 54) = 1 / 2 ^ 54"
    using power_int_minus_divide [of "2::real" 54] by simp
  from assms(1) have "(of_int A :: real) / 2 ^ (k + 54) < 1 - 1 / 2 ^ 54"
    by (simp add: pe p54)
  then have "(of_int A :: real) < (1 - 1 / 2 ^ 54) * 2 ^ (k + 54)"
    by (simp add: pos_divide_less_eq)
  also have "\<dots> = 2 ^ (k + 54) - 2 ^ k"
    by (simp add: power_add algebra_simps)
  finally have "(of_int A :: real) < of_int (2 ^ (k + 54) - 2 ^ k)" by simp
  then have "A < 2 ^ (k + 54) - 2 ^ k" by (simp only: of_int_less_iff)
  then show ?thesis by (simp add: ke k_def)
qed

lemma rate_test_complete:
  assumes "float_value a = Some x" and "float_value b = Some y"
    and "is_double a" and "is_double b"
    and "\<bar>x - y\<bar> < 1 - 2 powi (- 54)"
  shows "flt (fabs (fsub a b)) (Finite 1 0)"
proof -
  from assms(1,2) obtain m1 e1 m2 e2 where a: "a = Finite m1 e1" and b: "b = Finite m2 e2"
    and x: "x = of_int m1 * 2 powi e1" and y: "y = of_int m2 * 2 powi e2"
    by (cases a; cases b) auto
  define e where "e = min e1 e2"
  define M where "M = m1 * 2 ^ nat (e1 - e) - m2 * 2 ^ nat (e2 - e)"
  have elo: "- 1074 \<le> e" using assms(3,4) by (simp add: is_double_def a b e_def)
  have sub: "fsub a b = round_double M e"
    by (simp add: a b Let_def e_def M_def)
  have "x - y = (of_int M :: real) * 2 powi e"
    unfolding x y M_def by (rule finite_diff_value) (simp_all add: e_def)
  with assms(5) have d: "(of_int \<bar>M\<bar> :: real) * 2 powi e < 1 - 2 powi (- 54)"
    by (simp add: abs_mult)
  have "\<exists>q e'. round_double M e = Finite q e' \<and> flt (Finite \<bar>q\<bar> e') (Finite 1 0)"
  proof (cases "M = 0")
    case True
    have "round_double 0 e = Finite 0 e"
      using elo by (simp add: round_double_def Let_def overflows_def round_half_even_def)
    then show ?thesis using True by (simp add: flt_one)
  next
    case False
    have p54: "(0::real) < 2 powi (- 54)" by (simp add: zero_less_power_int)
    with d have d1: "(of_int \<bar>M\<bar> :: real) * 2 powi e < 2 powi 0" by simp
    from real_lt_pow_int [OF d1] have alt: "\<bar>M\<bar> < 2 ^ nat (- e) \<or> 0 < e" by simp
    have eneg: "e < 0"
    proof (rule ccontr)
      assume "\<not> e < 0"
      then have "0 \<le> e" by simp
      then have "(1::real) \<le> 2 powi e" by (simp add: power_int_nonneg_exp)
      moreover have "(1::real) \<le> of_int \<bar>M\<bar>" using False by (simp flip: of_int_abs)
      ultimately have "(1::real) \<le> of_int \<bar>M\<bar> * 2 powi e"
        by (metis mult_mono mult_1 zero_le_one of_int_0_le_iff abs_ge_zero)
      with d1 show False by simp
    qed
    with alt have lt: "\<bar>M\<bar> < 2 ^ nat (- e)" by simp
    have margin: "54 \<le> - e \<longrightarrow> \<bar>M\<bar> < 2 ^ nat (- e) - 2 ^ nat (- e - 54)"
      using margin_int [OF d] by blast
    from rounded_passes_int [OF False eneg elo lt margin] show ?thesis .
  qed
  then show ?thesis by (auto simp add: sub)
qed

text \<open>The significand that \<open>round_double\<close> hands to \<open>overflows\<close> is at most \<open>2 ^ 53\<close>.\<close>

lemma rounded_significand:
  "round_half_even \<bar>M\<bar> (nat (max (bitlen \<bar>M\<bar> - 53) (- 1074 - e))) \<le> 2 ^ 53"
proof (cases "M = 0")
  case True
  then show ?thesis by (simp add: round_half_even_def)
next
  case False
  define A where "A = \<bar>M\<bar>"
  define s where "s = nat (max (bitlen A - 53) (- 1074 - e))"
  have Apos: "0 < A" using False by (simp add: A_def)
  from bitlen_bounds [OF Apos] have hi: "A < 2 ^ nat (bitlen A)" by blast
  have "nat (bitlen A) \<le> s + 53" by (simp add: s_def)
  then have "(2::int) ^ nat (bitlen A) \<le> 2 ^ (s + 53)"
    by (rule power_increasing) simp
  with hi have "A < 2 ^ (s + 53)" by linarith
  then have "A div 2 ^ s < 2 ^ 53" by (rule div_pow_lt)
  moreover have "round_half_even A s \<le> A div 2 ^ s + 1" by (rule round_half_even_le)
  ultimately show ?thesis unfolding A_def s_def by linarith
qed

section \<open>Target selection\<close>

lemma find_target_SomeD:
  "find_target modes current r = Some m \<Longrightarrow>
     m \<in> set modes \<and> width m = width current \<and> height m = height current
       \<and> flt (fabs (fsub (refresh m) r)) (Finite 1 0)"
  by (induction modes) (auto split: if_splits)

lemma find_target_None_iff:
  "find_target modes current r = None \<longleftrightarrow>
     (\<forall>m\<in>set modes. \<not> (width m = width current \<and> height m = height current
        \<and> flt (fabs (fsub (refresh m) r)) (Finite 1 0)))"
  by (induction modes) auto

lemma find_target_skip:
  "\<forall>x\<in>set pre. \<not> (width x = width current \<and> height x = height current
        \<and> flt (fabs (fsub (refresh x) r)) (Finite 1 0)) \<Longrightarrow>
   find_target (pre @ rest) current r = find_target rest current r"
  by (induction pre) auto

lemma find_target_resolution_only:
  "width c = width c' \<Longrightarrow> height c = height c' \<Longrightarrow>
   find_target modes c r = find_target modes c' r"
  by (induction modes) auto

lemma find_target_strictly_close:
  assumes "find_target modes current r = Some m"
  shows "\<exists>x y. float_value (refresh m) = Some x \<and> float_value r = Some y \<and> \<bar>x - y\<bar> < 1"
  using find_target_SomeD [OF assms] rate_test_sound by blast

lemmas example_modes =
  m60_def m240_def parse_mode_def mode60_def mode240_def dict_get_def

lemmas script_defs =
  run_def main_def set_refresh_rate_def get_display_config_proxy_def
  get_current_state_def apply_config_def new_logical_monitors_def assign_mode_str_def
  same_resolution_def

lemmas example_defs =
  one_output_state_def two_output_state_def near_rates_state_def service_with_def
  float_of_arg_def dp1_def hdmi1_def dp1_monitor_def hdmi1_monitor_def mode60_def
  mode240_def mode5994_def hdmi_mode_def hdmi_mode_current_def m60_def m240_def
  parse_mode_def dict_get_def

text \<open>
  C2, as stated: the selection returns a mode of the current resolution whose refresh
  rate differs from the requested one by at most 1.0 Hz, a difference of exactly 1.0 Hz
  counting as a match. On the code this fails: with the modes 60 Hz (current) and 240 Hz
  at 1920x1080 and the request 61, the 60 Hz mode is exactly 1.0 Hz away and has the
  current resolution, and the selection returns nothing.
\<close>

theorem find_target_boundary_not_matched:
  "find_target [m60, m240] m60 (Finite 61 0) = None
     \<and> float_value (refresh m60) = Some 60 \<and> float_value (Finite 61 0) = Some 61
     \<and> (width m60, height m60) = (width m60, height m60)"
  by (simp add: example_modes round_double_exact)

text \<open>
  C2, amended: whenever the selection returns a mode, that mode is in the list, has the
  width and height of the current mode, and its refresh rate differs from the requested
  one by strictly less than 1.0 Hz; and the selection does return a mode whenever the list
  holds one of the current resolution that passes the script's test
  \<^verbatim>\<open>abs(m['refresh'] - target_refresh) < 1.0\<close>, evaluated in double arithmetic, which
  is the case for every mode whose refresh rate is less than \<open>1 - 2 ^ - 54\<close> Hz away from
  the requested one.
\<close>

theorem find_target_within_strict_tolerance:
  "(find_target modes current r = Some m \<longrightarrow>
      m \<in> set modes \<and> (width m, height m) = (width current, height current)
        \<and> (\<exists>x y. float_value (refresh m) = Some x \<and> float_value r = Some y
              \<and> \<bar>x - y\<bar> < 1))
   \<and> ((\<exists>x\<in>set modes. (width x, height x) = (width current, height current)
          \<and> flt (fabs (fsub (refresh x) r)) (Finite 1 0))
        \<longrightarrow> find_target modes current r \<noteq> None)
   \<and> ((\<exists>x\<in>set modes. (width x, height x) = (width current, height current)
          \<and> is_double (refresh x) \<and> is_double r
          \<and> (\<exists>a b. float_value (refresh x) = Some a \<and> float_value r = Some b
                \<and> \<bar>a - b\<bar> < 1 - 2 powi (- 54)))
        \<longrightarrow> find_target modes current r \<noteq> None)"
proof -
  have sound: "find_target modes current r = Some m \<longrightarrow>
      m \<in> set modes \<and> (width m, height m) = (width current, height current)
        \<and> (\<exists>x y. float_value (refresh m) = Some x \<and> float_value r = Some y
              \<and> \<bar>x - y\<bar> < 1)"
    using find_target_SomeD [of modes current r m]
      find_target_strictly_close [of modes current r m]
    by auto
  have test: "(\<exists>x\<in>set modes. (width x, height x) = (width current, height current)
          \<and> flt (fabs (fsub (refresh x) r)) (Finite 1 0))
        \<longrightarrow> find_target modes current r \<noteq> None"
    using find_target_None_iff [of modes current r] by auto
  have "(\<exists>x\<in>set modes. (width x, height x) = (width current, height current)
          \<and> is_double (refresh x) \<and> is_double r
          \<and> (\<exists>a b. float_value (refresh x) = Some a \<and> float_value r = Some b
                \<and> \<bar>a - b\<bar> < 1 - 2 powi (- 54)))
        \<longrightarrow> (\<exists>x\<in>set modes. (width x, height x) = (width current, height current)
          \<and> flt (fabs (fsub (refresh x) r)) (Finite 1 0))"
    using rate_test_complete by blast
  with sound test show ?thesis by blast
qed

theorem find_target_within_strict_tolerance_witness:
  "find_target [m60, m240] m60 (Finite 479 (- 1)) = Some m240
     \<and> m240 \<in> set [m60, m240] \<and> (width m240, height m240) = (width m60, height m60)
     \<and> float_value (refresh m240) = Some 240 \<and> float_value (Finite 479 (- 1)) = Some (479 / 2)
     \<and> \<bar>240 - 479 / 2\<bar> < (1::real)
     \<and> flt (fabs (fsub (refresh m240) (Finite 479 (- 1)))) (Finite 1 0)
     \<and> is_double (refresh m240) \<and> is_double (Finite 479 (- 1))
     \<and> \<bar>240 - 479 / 2\<bar> < (1::real) - 2 powi (- 54)
     \<and> find_target [m60, m240] m60 (Finite 479 (- 1)) \<noteq> None"
  using find_target_within_strict_tolerance [of "[m60, m240]" m60 "Finite 479 (- 1)" m240]
  by (simp add: example_modes round_double_exact is_double_def power_int_minus_divide)

text \<open>
  C3: a mode is eligible as the target (the loop's test accepts it) if and only if
  \<^verbatim>\<open>abs(m.refresh - r) < 1.0\<close>, evaluated as the script does in double arithmetic, and
  its width and height are those of the current mode; whatever the list, the mode returned
  satisfies this test; and a mode whose refresh rate is 1.0 Hz or more away from the
  requested one, in particular exactly 1.0 Hz, is never the one selected.
\<close>

theorem find_target_eligibility:
  "(find_target [m] current r = Some m \<longleftrightarrow>
      flt (fabs (fsub (refresh m) r)) (Finite 1 0)
        \<and> width m = width current \<and> height m = height current)
   \<and> (find_target modes current r = Some m \<longrightarrow>
      flt (fabs (fsub (refresh m) r)) (Finite 1 0)
        \<and> width m = width current \<and> height m = height current)
   \<and> ((\<exists>x y. float_value (refresh m) = Some x \<and> float_value r = Some y \<and> 1 \<le> \<bar>x - y\<bar>)
        \<longrightarrow> find_target modes current r \<noteq> Some m)"
  using find_target_SomeD [of modes current r m]
    find_target_strictly_close [of modes current r m]
  by auto

theorem find_target_eligibility_witness:
  "find_target [m240] m60 (Finite 240 0) = Some m240
     \<and> find_target [m60, m240] m60 (Finite 240 0) = Some m240
     \<and> flt (fabs (fsub (refresh m240) (Finite 240 0))) (Finite 1 0)
     \<and> width m240 = width m60 \<and> height m240 = height m60
     \<and> float_value (refresh m60) = Some 60 \<and> float_value (Finite 61 0) = Some 61
     \<and> (1::real) \<le> \<bar>60 - 61\<bar>
     \<and> find_target [m60, m240] m60 (Finite 61 0) \<noteq> Some m60"
  using find_target_eligibility [of m240 m60 "Finite 240 0" "[m60, m240]"]
    find_target_eligibility [of m60 m60 "Finite 61 0" "[m60, m240]"]
  by (simp add: example_modes round_double_exact)

text \<open>
  The test is on the rounded difference. The doubles 1.25 and 0.25000000000000006 differ
  by \<open>1 - 2 ^ - 54\<close>, which is less than 1; their double difference is a tie that rounds
  to 1.0, so a 1.25 Hz mode is not selected for that request.
\<close>

theorem find_target_tie_rounds_up:
  "float_value (Finite 5 (- 2)) = Some (5 / 4)
     \<and> float_value (Finite 4503599627370497 (- 54)) = Some (4503599627370497 / 2 ^ 54)
     \<and> \<bar>5 / 4 - 4503599627370497 / 2 ^ 54\<bar> < (1::real)
     \<and> fsub (Finite 5 (- 2)) (Finite 4503599627370497 (- 54)) = Finite 9007199254740992 (- 53)
     \<and> find_target [m60\<lparr>refresh := Finite 5 (- 2)\<rparr>] m60 (Finite 4503599627370497 (- 54))
         = None"
  by (simp add: example_modes round_double_tie)

text \<open>
  C8: target selection is a function of the mode list in its given order, the width and
  height of the current mode and the requested rate, so equal inputs give equal results;
  and when several modes are eligible, the first eligible one in the order of the list is
  returned: a mode that passes the test is selected whenever no mode before it passes.
\<close>

theorem find_target_first_match:
  "((\<forall>x\<in>set pre. \<not> (width x = width current \<and> height x = height current
        \<and> flt (fabs (fsub (refresh x) r)) (Finite 1 0)))
     \<and> width m = width current \<and> height m = height current
     \<and> flt (fabs (fsub (refresh m) r)) (Finite 1 0)
     \<longrightarrow> find_target (pre @ m # post) current r = Some m)
   \<and> (modes' = modes \<and> width current' = width current \<and> height current' = height current
        \<and> r' = r
     \<longrightarrow> find_target modes' current' r' = find_target modes current r)"
  using find_target_skip [of pre current r "m # post"]
    find_target_resolution_only [of current' current modes r]
  by auto

theorem find_target_first_match_witness:
  "\<not> (width m60 = width m60 \<and> height m60 = height m60
        \<and> flt (fabs (fsub (refresh m60) (Finite 240 0))) (Finite 1 0))
     \<and> width m240 = width m60 \<and> height m240 = height m60
     \<and> flt (fabs (fsub (refresh m240) (Finite 240 0))) (Finite 1 0)
     \<and> find_target ([m60] @ m240 # [m240\<lparr>mode_id := ''duplicate''\<rparr>]) m60 (Finite 240 0)
         = Some m240
     \<and> find_target [m60, m240] m240 (Finite 240 0) = find_target [m60, m240] m60 (Finite 240 0)"
  using find_target_first_match [of "[m60]" m60 "Finite 240 0" m240
      "[m240\<lparr>mode_id := ''duplicate''\<rparr>]" "[m60, m240]" "[m60, m240]" m240 "Finite 240 0"]
  by (simp add: example_modes round_double_exact)

section \<open>The rebuilt configuration\<close>

lemma keep_current_mode_find:
  "keep_current_mode modes conn st =
     (case current_mode_of modes conn of None \<Rightarrow> st | Some m \<Rightarrow> Some (mode_id m))"
  by (induction modes) (auto simp: current_mode_of_def)

lemma assign_mode_str_bound:
  "\<exists>s'. assign_mode_str modes target conn (Some s) = Some s'"
  by (simp add: assign_mode_str_def keep_current_mode_find split: option.splits)

lemma assign_mode_str_stale:
  "conn \<noteq> connector target \<Longrightarrow> current_mode_of modes conn = None \<Longrightarrow>
   assign_mode_str modes target conn st = st"
  by (simp add: assign_mode_str_def keep_current_mode_find)

lemma build_monitor_configs_Inr:
  "build_monitor_configs mcs modes target st = Inr (es, st') \<Longrightarrow>
     map fst es = map fst mcs
       \<and> map (\<lambda>e. Some (entry_mode_id e)) es = mode_strs modes target (map fst mcs) st
       \<and> (\<forall>e\<in>set es. entry_props e = [])
       \<and> st' = last (st # mode_strs modes target (map fst mcs) st)"
proof (induction mcs arbitrary: st es)
  case Nil
  then show ?case by simp
next
  case (Cons mc mcs)
  obtain conn vendor product serial_num where mc: "mc = (conn, vendor, product, serial_num)"
    by (cases mc) auto
  from Cons.prems mc obtain s rest where
    s: "assign_mode_str modes target conn st = Some s" and
    rest: "build_monitor_configs mcs modes target (Some s) = Inr (rest, st')" and
    es: "es = (conn, s, []) # rest"
    by (auto split: option.splits sum.splits)
  from Cons.IH [OF rest] show ?case
    using mc s es by (simp add: entry_mode_id_def entry_props_def)
qed

lemma build_monitor_configs_bound:
  "\<exists>es s'. build_monitor_configs mcs modes target (Some s) = Inr (es, Some s')"
proof (induction mcs arbitrary: s)
  case Nil
  then show ?case by simp
next
  case (Cons mc mcs)
  obtain conn vendor product serial_num where mc: "mc = (conn, vendor, product, serial_num)"
    by (cases mc) auto
  obtain s1 where s1: "assign_mode_str modes target conn (Some s) = Some s1"
    using assign_mode_str_bound by blast
  from Cons.IH [of s1] obtain es s' where
    "build_monitor_configs mcs modes target (Some s1) = Inr (es, Some s')" by blast
  then show ?case using mc s1 by simp
qed

lemma build_logical_monitors_bound:
  "\<exists>new. build_logical_monitors lms modes target (Some s) = Inr new"
proof (induction lms arbitrary: s)
  case Nil
  then show ?case by simp
next
  case (Cons lm lms)
  obtain x y sc t p mcs lp where lm: "lm = (x, y, sc, t, p, mcs, lp)"
    by (cases lm) auto
  obtain es s1 where es: "build_monitor_configs mcs modes target (Some s) = Inr (es, Some s1)"
    using build_monitor_configs_bound by blast
  from Cons.IH [of s1] obtain new where
    "build_logical_monitors lms modes target (Some s1) = Inr new" by blast
  then show ?case using lm es by simp
qed

lemma mode_strs_append:
  "mode_strs modes target (xs @ ys) st =
     mode_strs modes target xs st
       @ mode_strs modes target ys (last (st # mode_strs modes target xs st))"
  by (induction xs arbitrary: st) auto

lemma length_mode_strs [simp]: "length (mode_strs modes target cs st) = length cs"
  by (induction cs arbitrary: st) auto

lemma entries_of_simp: "entries_of (x, y, sc, t, p, es) = es"
  by (simp add: entries_of_def)

lemma connectors_of_simp: "connectors_of (x, y, sc, t, p, mcs, lp) = map fst mcs"
  by (simp add: connectors_of_def)

lemma placement_simp: "placement (x, y, sc, t, p, mcs, lp) = (x, y, sc, t, p)"
  by (simp add: placement_def)

lemma new_placement_simp: "new_placement (x, y, sc, t, p, es) = (x, y, sc, t, p)"
  by (simp add: new_placement_def)

lemma assign_mode_str_fresh_Some:
  "conn = connector target \<or> current_mode_of modes conn \<noteq> None \<Longrightarrow>
   \<exists>s. assign_mode_str modes target conn st = Some s"
  by (cases "current_mode_of modes conn")
    (auto simp add: assign_mode_str_def keep_current_mode_find)

lemma submitted_entries_simps:
  "submitted_entries [] = []"
  "submitted_entries ((x, y, sc, t, p, es) # rest) = es @ submitted_entries rest"
  by (simp_all add: submitted_entries_def entries_of_def)

lemma referenced_connectors_simps:
  "referenced_connectors [] = []"
  "referenced_connectors ((x, y, sc, t, p, mcs, lp) # lms) =
     map fst mcs @ referenced_connectors lms"
  by (simp_all add: referenced_connectors_def connectors_of_def)

lemma build_logical_monitors_Inr:
  "build_logical_monitors lms modes target st = Inr new \<Longrightarrow>
     map (\<lambda>lm. map fst (entries_of lm)) new = map connectors_of lms
       \<and> map new_placement new = map placement lms
       \<and> map (\<lambda>e. Some (entry_mode_id e)) (submitted_entries new)
           = mode_strs modes target (referenced_connectors lms) st
       \<and> (\<forall>e\<in>set (submitted_entries new). entry_props e = [])"
proof (induction lms arbitrary: st new)
  case Nil
  then show ?case by (simp add: submitted_entries_simps referenced_connectors_simps)
next
  case (Cons lm lms)
  obtain x y sc t p mcs lp where lm: "lm = (x, y, sc, t, p, mcs, lp)"
    by (cases lm) auto
  from Cons.prems lm obtain es st1 rest where
    es: "build_monitor_configs mcs modes target st = Inr (es, st1)" and
    rest: "build_logical_monitors lms modes target st1 = Inr rest" and
    new: "new = (x, y, sc, t, p, es) # rest"
    by (auto split: sum.splits)
  note A = build_monitor_configs_Inr [OF es]
  note B = Cons.IH [OF rest]
  have 1: "map (\<lambda>lm. map fst (entries_of lm)) new = map connectors_of (lm # lms)"
    using A B by (simp add: lm new entries_of_simp connectors_of_simp)
  have 2: "map new_placement new = map placement (lm # lms)"
    using B by (simp add: lm new placement_simp new_placement_simp)
  have 3: "map (\<lambda>e. Some (entry_mode_id e)) (submitted_entries new)
           = mode_strs modes target (referenced_connectors (lm # lms)) st"
    using A B
    by (simp add: lm new submitted_entries_simps referenced_connectors_simps
        mode_strs_append)
  have 4: "\<forall>e\<in>set (submitted_entries new). entry_props e = []"
    using A B by (auto simp add: new submitted_entries_simps)
  from 1 2 3 4 show ?case by blast
qed

lemma mode_strs_nth:
  "k < length cs \<Longrightarrow>
   mode_strs modes target cs st ! k =
     assign_mode_str modes target (cs ! k)
       (if k = 0 then st else mode_strs modes target cs st ! (k - 1))"
proof (induction cs arbitrary: st k)
  case Nil
  then show ?case by simp
next
  case (Cons c cs)
  show ?case
  proof (cases k)
    case 0
    then show ?thesis by simp
  next
    case (Suc j)
    with Cons.prems have j: "j < length cs" by simp
    show ?thesis using Cons.IH [OF j] Suc by (cases j) simp_all
  qed
qed

lemma build_logical_monitors_unbound:
  "referenced_connectors lms \<noteq> [] \<Longrightarrow>
   hd (referenced_connectors lms) \<noteq> connector target \<Longrightarrow>
   current_mode_of modes (hd (referenced_connectors lms)) = None \<Longrightarrow>
   build_logical_monitors lms modes target None = Inl (UnboundLocalError ''mode_str'')"
proof (induction lms)
  case Nil
  then show ?case by (simp add: referenced_connectors_simps)
next
  case (Cons lm lms)
  obtain x y sc t p mcs lp where lm: "lm = (x, y, sc, t, p, mcs, lp)"
    by (cases lm) auto
  show ?case
  proof (cases mcs)
    case Nil
    with Cons lm show ?thesis by (simp add: referenced_connectors_simps)
  next
    case (Cons mc mcs')
    obtain conn vendor product serial_num where mc: "mc = (conn, vendor, product, serial_num)"
      by (cases mc) auto
    from Cons.prems(2,3) lm Cons mc
    have "assign_mode_str modes target conn None = None"
      by (simp add: referenced_connectors_simps assign_mode_str_stale)
    then show ?thesis using lm Cons mc by simp
  qed
qed

lemma build_logical_monitors_first_ok:
  "referenced_connectors lms = [] \<or>
     hd (referenced_connectors lms) = connector target \<or>
     current_mode_of modes (hd (referenced_connectors lms)) \<noteq> None \<Longrightarrow>
   \<exists>new. build_logical_monitors lms modes target None = Inr new"
proof (induction lms)
  case Nil
  then show ?case by simp
next
  case (Cons lm lms)
  obtain x y sc t p mcs lp where lm: "lm = (x, y, sc, t, p, mcs, lp)"
    by (cases lm) auto
  show ?case
  proof (cases mcs)
    case Nil
    with Cons.prems lm have "referenced_connectors lms = [] \<or>
       hd (referenced_connectors lms) = connector target \<or>
       current_mode_of modes (hd (referenced_connectors lms)) \<noteq> None"
      by (simp add: referenced_connectors_simps)
    from Cons.IH [OF this] obtain new where
      "build_logical_monitors lms modes target None = Inr new" by blast
    then show ?thesis using lm Nil by simp
  next
    case (Cons mc mcs')
    obtain conn vendor product serial_num where mc: "mc = (conn, vendor, product, serial_num)"
      by (cases mc) auto
    from Cons.prems lm Cons mc
    have "conn = connector target \<or> current_mode_of modes conn \<noteq> None"
      by (simp add: referenced_connectors_simps)
    then obtain s where s: "assign_mode_str modes target conn None = Some s"
      using assign_mode_str_fresh_Some by blast
    obtain es s' where es: "build_monitor_configs mcs' modes target (Some s) = Inr (es, Some s')"
      using build_monitor_configs_bound by blast
    obtain new where "build_logical_monitors lms modes target (Some s') = Inr new"
      using build_logical_monitors_bound by blast
    then show ?thesis using lm Cons mc s es by simp
  qed
qed


lemma submitted_entries_connectors:
  "map (\<lambda>lm. map fst (entries_of lm)) new = map connectors_of lms \<Longrightarrow>
   map fst (submitted_entries new) = referenced_connectors lms"
proof -
  assume a: "map (\<lambda>lm. map fst (entries_of lm)) new = map connectors_of lms"
  have "map fst (submitted_entries new) = concat (map (\<lambda>lm. map fst (entries_of lm)) new)"
    by (simp add: submitted_entries_def map_concat comp_def)
  with a show ?thesis by (simp add: referenced_connectors_def)
qed

lemma mode_strs_fresh_nth:
  assumes "k < length cs"
  shows "(cs ! k = connector target \<longrightarrow>
            mode_strs modes target cs st ! k = Some (mode_id target))
       \<and> (cs ! k \<noteq> connector target \<and> current_mode_of modes (cs ! k) = Some m \<longrightarrow>
            mode_strs modes target cs st ! k = Some (mode_id m))"
  using mode_strs_nth [OF assms, of modes target st]
  by (simp add: assign_mode_str_def keep_current_mode_find)

lemma rebuilt_entries:
  assumes "new_logical_monitors lms modes target = Inr new"
  shows "map (\<lambda>lm. map fst (entries_of lm)) new = map connectors_of lms
       \<and> (\<forall>e\<in>set (submitted_entries new).
            (fst e = connector target \<longrightarrow> entry_mode_id e = mode_id target)
          \<and> (\<forall>m. fst e \<noteq> connector target \<and> current_mode_of modes (fst e) = Some m
                 \<longrightarrow> entry_mode_id e = mode_id m))"
proof -
  let ?cs = "referenced_connectors lms"
  let ?es = "submitted_entries new"
  from assms have new: "build_logical_monitors lms modes target None = Inr new"
    by (simp add: new_logical_monitors_def)
  note R = build_logical_monitors_Inr [OF new]
  from R have conns: "map (\<lambda>lm. map fst (entries_of lm)) new = map connectors_of lms"
    by blast
  then have fst_es: "map fst ?es = ?cs" by (rule submitted_entries_connectors)
  then have len: "length ?es = length ?cs" by (metis length_map)
  from R have ids: "map (\<lambda>e. Some (entry_mode_id e)) ?es = mode_strs modes target ?cs None"
    by blast
  have "\<forall>e\<in>set ?es.
            (fst e = connector target \<longrightarrow> entry_mode_id e = mode_id target)
          \<and> (\<forall>m. fst e \<noteq> connector target \<and> current_mode_of modes (fst e) = Some m
                 \<longrightarrow> entry_mode_id e = mode_id m)"
  proof
    fix e assume "e \<in> set ?es"
    then obtain k where k: "k < length ?es" and e: "e = ?es ! k"
      by (metis in_set_conv_nth)
    from k len have kc: "k < length ?cs" by simp
    have c: "fst e = ?cs ! k" using fst_es k e by (metis nth_map)
    have i: "mode_strs modes target ?cs None ! k = Some (entry_mode_id e)"
      using ids k e by (metis nth_map)
    show "(fst e = connector target \<longrightarrow> entry_mode_id e = mode_id target)
          \<and> (\<forall>m. fst e \<noteq> connector target \<and> current_mode_of modes (fst e) = Some m
                 \<longrightarrow> entry_mode_id e = mode_id m)"
      using mode_strs_fresh_nth [OF kc, of target modes None] c i by auto
  qed
  with conns show ?thesis by blast
qed

text \<open>
  C1: whatever the fetched state, a configuration rebuilt by the set operation has, for
  each original logical monitor and in the same order, one entry per referenced connector
  (none is omitted); every entry of the target's connector carries the target's mode id,
  and every entry of another connector that has a mode flagged current carries the mode id
  of that mode, looked up in the freshly parsed list (the first one flagged, should there
  be several). The rebuild does produce a configuration when every referenced connector
  other than the target's has a mode flagged current, as the data model requires of a
  fetched state.
\<close>

theorem new_logical_monitors_fresh_modes:
  "(new_logical_monitors lms modes target = Inr new \<longrightarrow>
      map (\<lambda>lm. map fst (entries_of lm)) new = map connectors_of lms
      \<and> (\<forall>e\<in>set (submitted_entries new).
            (fst e = connector target \<longrightarrow> entry_mode_id e = mode_id target)
          \<and> (\<forall>m. fst e \<noteq> connector target \<and> current_mode_of modes (fst e) = Some m
                 \<longrightarrow> entry_mode_id e = mode_id m)))
   \<and> ((\<forall>c\<in>set (referenced_connectors lms).
          c \<noteq> connector target \<longrightarrow> current_mode_of modes c \<noteq> None)
       \<longrightarrow> (\<exists>new'. new_logical_monitors lms modes target = Inr new'))"
proof -
  let ?cs = "referenced_connectors lms"
  have "\<exists>new'. new_logical_monitors lms modes target = Inr new'"
    if inv: "\<forall>c\<in>set ?cs. c \<noteq> connector target \<longrightarrow> current_mode_of modes c \<noteq> None"
  proof -
    from inv have "?cs = [] \<or> hd ?cs = connector target
        \<or> current_mode_of modes (hd ?cs) \<noteq> None"
      by (cases ?cs) auto
    from build_logical_monitors_first_ok [OF this]
    show ?thesis by (simp add: new_logical_monitors_def)
  qed
  then show ?thesis using rebuilt_entries [of lms modes target new] by blast
qed

theorem new_logical_monitors_fresh_modes_witness:
  "referenced_connectors [(0, 0, Finite 1 0, 0, True, [hdmi1, dp1], [])] = [''HDMI-1'', ''DP-1'']
   \<and> connector m240 = ''DP-1''
   \<and> map_option mode_id
        (current_mode_of (parse_modes [dp1_monitor, (hdmi1, [hdmi_mode_current], [])])
           ''HDMI-1'') = Some ''1280x720@60''
   \<and> new_logical_monitors [(0, 0, Finite 1 0, 0, True, [hdmi1, dp1], [])]
        (parse_modes [dp1_monitor, (hdmi1, [hdmi_mode_current], [])]) m240
       = Inr [(0, 0, Finite 1 0, 0, True,
               [(''HDMI-1'', ''1280x720@60'', []), (''DP-1'', ''1920x1080@240'', [])])]"
  using new_logical_monitors_fresh_modes [of "[(0, 0, Finite 1 0, 0, True, [hdmi1, dp1], [])]"
      "parse_modes [dp1_monitor, (hdmi1, [hdmi_mode_current], [])]" m240
      "[(0, 0, Finite 1 0, 0, True,
               [(''HDMI-1'', ''1280x720@60'', []), (''DP-1'', ''1920x1080@240'', [])])]"]
  by (simp add: script_defs example_defs current_mode_of_def referenced_connectors_def
      connectors_of_def)

text \<open>
  C9: for a referenced connector that is not the target's and has no parsed mode flagged
  current, the rebuild assigns nothing to \<^verbatim>\<open>mode_str\<close>, which keeps its previous
  value. If the connector is the first one processed, the rebuild fails with
  \<^verbatim>\<open>UnboundLocalError\<close>. Otherwise, when the first connector processed did get a mode
  id (it is the target's or has a mode flagged current), the rebuild returns a
  configuration in which the entry of the connector carries the mode id of the entry of
  the connector processed just before it; and when the first connector processed got
  none, the rebuild has failed there and never reaches the connector. The connectors are
  processed in the order of the logical monitors and, within one, of its list.
\<close>

theorem new_logical_monitors_stale_mode_str:
  assumes k: "k < length (referenced_connectors lms)"
    and other: "referenced_connectors lms ! k \<noteq> connector target"
    and none: "current_mode_of modes (referenced_connectors lms ! k) = None"
  shows "assign_mode_str modes target (referenced_connectors lms ! k) mode_str = mode_str
    \<and> (k = 0 \<longrightarrow>
          new_logical_monitors lms modes target = Inl (UnboundLocalError ''mode_str''))
    \<and> (0 < k \<and> (referenced_connectors lms ! 0 = connector target
                 \<or> current_mode_of modes (referenced_connectors lms ! 0) \<noteq> None) \<longrightarrow>
          (\<exists>new. new_logical_monitors lms modes target = Inr new
             \<and> fst (submitted_entries new ! k) = referenced_connectors lms ! k
             \<and> fst (submitted_entries new ! (k - 1)) = referenced_connectors lms ! (k - 1)
             \<and> entry_mode_id (submitted_entries new ! k)
                 = entry_mode_id (submitted_entries new ! (k - 1))))
    \<and> (referenced_connectors lms ! 0 \<noteq> connector target
         \<and> current_mode_of modes (referenced_connectors lms ! 0) = None \<longrightarrow>
          new_logical_monitors lms modes target = Inl (UnboundLocalError ''mode_str''))"
proof -
  let ?cs = "referenced_connectors lms"
  from k have ne: "?cs \<noteq> []" by auto
  have stale: "assign_mode_str modes target (?cs ! k) mode_str = mode_str"
    using other none by (rule assign_mode_str_stale)
  have first: "new_logical_monitors lms modes target = Inl (UnboundLocalError ''mode_str'')"
    if "?cs ! 0 \<noteq> connector target \<and> current_mode_of modes (?cs ! 0) = None"
    using that ne
    by (simp add: new_logical_monitors_def build_logical_monitors_unbound hd_conv_nth)
  have zero: "new_logical_monitors lms modes target = Inl (UnboundLocalError ''mode_str'')"
    if "k = 0"
    using that other none first by simp
  have later: "\<exists>new. new_logical_monitors lms modes target = Inr new
             \<and> fst (submitted_entries new ! k) = ?cs ! k
             \<and> fst (submitted_entries new ! (k - 1)) = ?cs ! (k - 1)
             \<and> entry_mode_id (submitted_entries new ! k)
                 = entry_mode_id (submitted_entries new ! (k - 1))"
    if a: "0 < k \<and> (?cs ! 0 = connector target \<or> current_mode_of modes (?cs ! 0) \<noteq> None)"
  proof -
    from a ne have "?cs = [] \<or> hd ?cs = connector target
        \<or> current_mode_of modes (hd ?cs) \<noteq> None"
      by (simp add: hd_conv_nth)
    from build_logical_monitors_first_ok [OF this] obtain new where
      new: "build_logical_monitors lms modes target None = Inr new" by blast
    let ?es = "submitted_entries new"
    note R = build_logical_monitors_Inr [OF new]
    from R have fst_es: "map fst ?es = ?cs"
      using submitted_entries_connectors by blast
    then have len: "length ?es = length ?cs" by (metis length_map)
    from R have ids: "map (\<lambda>e. Some (entry_mode_id e)) ?es = mode_strs modes target ?cs None"
      by blast
    have nth: "\<And>j. j < length ?cs \<Longrightarrow>
        mode_strs modes target ?cs None ! j = Some (entry_mode_id (?es ! j))"
      using ids len by (metis nth_map)
    have f1: "fst (?es ! k) = ?cs ! k"
      using fst_es k len by (metis nth_map)
    have k1: "k - 1 < length ?cs" using k by simp
    have f2: "fst (?es ! (k - 1)) = ?cs ! (k - 1)"
      using fst_es k1 len by (metis nth_map)
    have "Some (entry_mode_id (?es ! k)) = mode_strs modes target ?cs None ! k"
      using nth [OF k] by simp
    also have "\<dots> = assign_mode_str modes target (?cs ! k)
                      (mode_strs modes target ?cs None ! (k - 1))"
      using mode_strs_nth [OF k, of modes target None] a by simp
    also have "\<dots> = mode_strs modes target ?cs None ! (k - 1)"
      using other none by (rule assign_mode_str_stale)
    also have "\<dots> = Some (entry_mode_id (?es ! (k - 1)))"
      using nth [OF k1] by simp
    finally have "entry_mode_id (?es ! k) = entry_mode_id (?es ! (k - 1))" by simp
    with new f1 f2 show ?thesis
      by (auto simp add: new_logical_monitors_def)
  qed
  from stale zero later first show ?thesis by blast
qed

theorem new_logical_monitors_stale_mode_str_witness:
  "referenced_connectors [(0, 0, Finite 1 0, 0, True, [hdmi1, dp1], [])] ! 0 = ''HDMI-1''
   \<and> current_mode_of (parse_modes [dp1_monitor, hdmi1_monitor]) ''HDMI-1'' = None
   \<and> new_logical_monitors [(0, 0, Finite 1 0, 0, True, [hdmi1, dp1], [])]
        (parse_modes [dp1_monitor, hdmi1_monitor]) m240
       = Inl (UnboundLocalError ''mode_str'')
   \<and> referenced_connectors
        [(0, 0, Finite 1 0, 0, True, [dp1], []), (1920, 0, Finite 1 0, 0, False, [hdmi1], [])] ! 0
       = connector m240
   \<and> referenced_connectors
        [(0, 0, Finite 1 0, 0, True, [dp1], []), (1920, 0, Finite 1 0, 0, False, [hdmi1], [])] ! 1
       = ''HDMI-1''
   \<and> new_logical_monitors
        [(0, 0, Finite 1 0, 0, True, [dp1], []), (1920, 0, Finite 1 0, 0, False, [hdmi1], [])]
        (parse_modes [dp1_monitor, hdmi1_monitor]) m240
       = Inr [(0, 0, Finite 1 0, 0, True, [(''DP-1'', ''1920x1080@240'', [])]),
              (1920, 0, Finite 1 0, 0, False, [(''HDMI-1'', ''1920x1080@240'', [])])]"
  using new_logical_monitors_stale_mode_str [of 0
      "[(0, 0, Finite 1 0, 0, True, [hdmi1, dp1], [])]" m240
      "parse_modes [dp1_monitor, hdmi1_monitor]" None]
    new_logical_monitors_stale_mode_str [of 1
      "[(0, 0, Finite 1 0, 0, True, [dp1], []), (1920, 0, Finite 1 0, 0, False, [hdmi1], [])]"
      m240 "parse_modes [dp1_monitor, hdmi1_monitor]" None]
  by (simp add: script_defs example_defs current_mode_of_def referenced_connectors_def
      connectors_of_def)

section \<open>The set operation and the process\<close>

lemma set_refresh_rate_apply_event:
  assumes "ApplyMonitorsConfig params \<in> set (snd (set_refresh_rate svc r))"
  shows "\<exists>serial monitors lms gprops current target new.
           proxy_fault svc = None
         \<and> state_reply svc = Inr (serial, monitors, lms, gprops)
         \<and> find_current (parse_modes monitors) = Some current
         \<and> find_target (parse_modes monitors) current r = Some target
         \<and> \<not> truthy (is_current target)
         \<and> new_logical_monitors lms (parse_modes monitors) target = Inr new
         \<and> params = (serial, 1, new, [])"
  using assms
  by (auto simp add: set_refresh_rate_def get_display_config_proxy_def get_current_state_def
      apply_config_def Let_def
      split: option.splits sum.splits prod.splits if_splits)

lemma set_refresh_rate_reaches_apply:
  assumes "proxy_fault svc = None"
    and "state_reply svc = Inr (serial, monitors, lms, gprops)"
    and "find_current (parse_modes monitors) = Some current"
    and "find_target (parse_modes monitors) current r = Some target"
    and "\<not> truthy (is_current target)"
    and "new_logical_monitors lms (parse_modes monitors) target = Inr new"
  shows "set_refresh_rate svc r =
     (case apply_reply svc (serial, 1, new, []) of
        None \<Rightarrow> (Inr True, [GetCurrentState, ApplyMonitorsConfig (serial, 1, new, []),
                   Print (RefreshRateSet (refresh target))])
      | Some e \<Rightarrow> (Inr False, [GetCurrentState, ApplyMonitorsConfig (serial, 1, new, []),
                   Print (ErrApplyingConfig (GLibError e))]))"
  using assms
  by (simp add: set_refresh_rate_def get_display_config_proxy_def get_current_state_def
      apply_config_def Let_def split: option.splits)

lemma main_apply_event:
  assumes "ApplyMonitorsConfig params \<in> set (snd (main py_float svc argv))"
  shows "\<exists>r. 2 \<le> length argv \<and> argv ! 1 \<noteq> ''--list'' \<and> argv ! 1 \<noteq> ''--current''
           \<and> py_float (argv ! 1) = Some r
           \<and> ApplyMonitorsConfig params \<in> set (snd (set_refresh_rate svc r))"
  using assms
  by (auto simp add: main_def list_modes_def get_current_mode_def Let_def
      get_display_config_proxy_def get_current_state_def
      split: option.splits sum.splits prod.splits if_splits bool.splits py_error.splits)


lemma snd_run: "snd (run py_float svc argv) = snd (main py_float svc argv)"
  by (simp add: run_def split: prod.splits sum.splits)

lemma run_set_path:
  assumes "2 \<le> length argv" and "argv ! 1 \<noteq> ''--list''" and "argv ! 1 \<noteq> ''--current''"
    and "py_float (argv ! 1) = Some r"
    and "set_refresh_rate svc r = (Inr b, evs)"
  shows "run py_float svc argv = (Exited (if b then 0 else 1), evs)"
  using assms by (simp add: run_def main_def Let_def)

lemma build_logical_monitors_ignores_lm_props:
  "map (with_lm_props []) lms' = map (with_lm_props []) lms \<Longrightarrow>
   build_logical_monitors lms' modes target st = build_logical_monitors lms modes target st"
proof (induction lms arbitrary: lms' st)
  case Nil
  then show ?case by simp
next
  case (Cons lm lms)
  from Cons.prems obtain lm' rest where lms': "lms' = lm' # rest"
    and hd: "with_lm_props [] lm' = with_lm_props [] lm"
    and tl: "map (with_lm_props []) rest = map (with_lm_props []) lms"
    by (cases lms') auto
  obtain x y sc t p mcs lp where lm: "lm = (x, y, sc, t, p, mcs, lp)"
    by (cases lm) auto
  from hd lm obtain lp' where lm': "lm' = (x, y, sc, t, p, mcs, lp')"
    by (cases lm') (auto simp add: with_lm_props_def)
  show ?case using Cons.IH [OF tl] by (simp add: lms' lm lm' split: sum.splits prod.splits)
qed



lemma set_refresh_rate_placement:
  assumes "state_reply svc = Inr (serial, monitors, lms, gprops)"
    and "ApplyMonitorsConfig (serial', method, new, gprops') \<in> set (snd (set_refresh_rate svc r))"
  shows "map new_placement new = map placement lms"
proof -
  from set_refresh_rate_apply_event [OF assms(2)] obtain serial2 monitors2 lms2 gprops2 current target new2
    where st: "state_reply svc = Inr (serial2, monitors2, lms2, gprops2)"
      and n: "new_logical_monitors lms2 (parse_modes monitors2) target = Inr new2"
      and p: "(serial', method, new, gprops') = (serial2, 1, new2, [])"
    by blast
  from st assms(1) have "lms2 = lms" by simp
  with n p have "build_logical_monitors lms (parse_modes monitors2) target None = Inr new"
    by (simp add: new_logical_monitors_def)
  from build_logical_monitors_Inr [OF this]
  show "map new_placement new = map placement lms" by blast
qed




lemma apply_config_state_reply:
  "apply_config (svc\<lparr>state_reply := x\<rparr>) serial new = apply_config svc serial new"
  by (simp add: apply_config_def)

lemma set_refresh_rate_ignores_lm_props:
  assumes "\<And>modes target. new_logical_monitors lms' modes target
      = new_logical_monitors lms modes target"
  shows "set_refresh_rate (svc\<lparr>state_reply := Inr (serial, monitors, lms', gprops)\<rparr>) r
          = set_refresh_rate (svc\<lparr>state_reply := Inr (serial, monitors, lms, gprops)\<rparr>) r"
  by (simp add: set_refresh_rate_def get_display_config_proxy_def get_current_state_def
      apply_config_state_reply Let_def assms split: option.splits sum.splits)


lemma find_current_skip:
  "\<forall>x\<in>set pre. \<not> truthy (is_current x) \<Longrightarrow>
   find_current (pre @ rest) = find_current rest"
  by (induction pre) auto

text \<open>
  C4, as stated: whenever the current mode's refresh rate is within 1.0 Hz of the requested
  rate, target selection returns the current mode and nothing is applied. On the code this
  fails: with the modes 59.94 Hz and 60 Hz (current) of one resolution, listed in this
  order, and the request 60, the first match is the 59.94 Hz mode, which is not current,
  and the script applies it.
\<close>

theorem run_current_rate_not_noop:
  "find_current (parse_modes [(dp1, [mode5994, mode60], [])]) = Some m60
   \<and> flt (fabs (fsub (refresh m60) (Finite 60 0))) (Finite 1 0)
   \<and> find_target (parse_modes [(dp1, [mode5994, mode60], [])]) m60 (Finite 60 0)
       = Some (parse_mode ''DP-1'' mode5994)
   \<and> run float_of_arg (service_with near_rates_state None) [''set-refresh-rate.py'', ''60'']
     = (Exited 0,
        [GetCurrentState,
         ApplyMonitorsConfig
           (7, 1, [(0, 0, Finite 1 0, 0, True, [(''DP-1'', ''1920x1080@59.94'', [])])], []),
         Print (RefreshRateSet (Finite 1054475631502295 (- 44)))])"
  by (simp add: script_defs example_defs round_double_exact)

text \<open>
  C4, amended: if the current mode (the first mode flagged current) passes the script's
  test \<^verbatim>\<open>abs(m['refresh'] - target_refresh) < 1.0\<close>, evaluated in double arithmetic,
  and no mode listed before it has the current resolution and passes that test, then
  target selection returns the current mode itself, no apply call is made, the script
  prints that the rate is already set, and the process exits with code 0.
\<close>

theorem run_already_at_rate:
  assumes "proxy_fault svc = None"
    and "state_reply svc = Inr (serial, monitors, lms, gprops)"
    and "parse_modes monitors = pre @ current # post"
    and "\<forall>x\<in>set pre. \<not> truthy (is_current x)
           \<and> \<not> (width x = width current \<and> height x = height current
                \<and> flt (fabs (fsub (refresh x) r)) (Finite 1 0))"
    and "truthy (is_current current)"
    and "flt (fabs (fsub (refresh current) r)) (Finite 1 0)"
    and "arg \<noteq> ''--list''" and "arg \<noteq> ''--current''" and "py_float arg = Some r"
  shows "find_current (parse_modes monitors) = Some current
       \<and> find_target (parse_modes monitors) current r = Some current
       \<and> run py_float svc [prog, arg] = (Exited 0, [GetCurrentState, Print (AlreadyAt r)])"
proof -
  have cur: "find_current (parse_modes monitors) = Some current"
    using assms(3,4,5) find_current_skip [of pre "current # post"] by simp
  have tgt: "find_target (parse_modes monitors) current r = Some current"
    using assms(3,4,6) find_target_skip [of pre current r "current # post"] by simp
  have "set_refresh_rate svc r = (Inr True, [GetCurrentState, Print (AlreadyAt r)])"
    using assms(1,2,5) cur tgt
    by (simp add: set_refresh_rate_def get_display_config_proxy_def get_current_state_def)
  then have "run py_float svc [prog, arg] = (Exited 0, [GetCurrentState, Print (AlreadyAt r)])"
    using assms(7,8,9) by (simp add: run_def main_def)
  with cur tgt show ?thesis by simp
qed


theorem run_already_at_rate_witness:
  "parse_modes [(dp1, [mode240, mode60], [])] = [m240] @ m60 # []
   \<and> \<not> truthy (is_current m240)
   \<and> \<not> (width m240 = width m60 \<and> height m240 = height m60
          \<and> flt (fabs (fsub (refresh m240) (Finite 60 0))) (Finite 1 0))
   \<and> truthy (is_current m60) \<and> flt (fabs (fsub (refresh m60) (Finite 60 0))) (Finite 1 0)
   \<and> float_of_arg ''60'' = Some (Finite 60 0)
   \<and> find_target (parse_modes [(dp1, [mode240, mode60], [])]) m60 (Finite 60 0) = Some m60
   \<and> run float_of_arg
        (service_with (7, [(dp1, [mode240, mode60], [])], [(0, 0, Finite 1 0, 0, True, [dp1], [])], [])
           None)
        [''set-refresh-rate.py'', ''60'']
     = (Exited 0, [GetCurrentState, Print (AlreadyAt (Finite 60 0))])"
  using run_already_at_rate [of "service_with (7, [(dp1, [mode240, mode60], [])],
        [(0, 0, Finite 1 0, 0, True, [dp1], [])], []) None" 7 "[(dp1, [mode240, mode60], [])]"
      "[(0, 0, Finite 1 0, 0, True, [dp1], [])]" "[]" "[m240]" m60 "[]" "Finite 60 0" "''60''" float_of_arg
      "''set-refresh-rate.py''"]
  by (simp add: script_defs example_defs round_double_exact)


text \<open>
  C5: in every run in which \<^verbatim>\<open>ApplyMonitorsConfig\<close> is called and the service
  answers the call with a fault, the fault is caught: the run consists of the fetch, this
  one apply call (no second attempt) and the printed error, and the process exits with
  code 1 instead of ending with an uncaught exception.
\<close>

theorem run_apply_fault:
  assumes "ApplyMonitorsConfig params \<in> set (snd (run py_float svc argv))"
    and "apply_reply svc params = Some fault"
  shows "run py_float svc argv =
           (Exited 1,
            [GetCurrentState, ApplyMonitorsConfig params,
             Print (ErrApplyingConfig (GLibError fault))])
         \<and> length (filter is_apply (snd (run py_float svc argv))) = 1"
proof -
  from assms(1) have "ApplyMonitorsConfig params \<in> set (snd (main py_float svc argv))"
    by (simp add: snd_run)
  from main_apply_event [OF this] obtain r where
    argv: "2 \<le> length argv" "argv ! 1 \<noteq> ''--list''" "argv ! 1 \<noteq> ''--current''"
      "py_float (argv ! 1) = Some r" and
    ev: "ApplyMonitorsConfig params \<in> set (snd (set_refresh_rate svc r))"
    by blast
  from set_refresh_rate_apply_event [OF ev] obtain serial monitors lms gprops current target new
    where st: "proxy_fault svc = None" "state_reply svc = Inr (serial, monitors, lms, gprops)"
      "find_current (parse_modes monitors) = Some current"
      "find_target (parse_modes monitors) current r = Some target"
      "\<not> truthy (is_current target)"
      "new_logical_monitors lms (parse_modes monitors) target = Inr new"
      and params: "params = (serial, 1, new, [])"
    by blast
  have "set_refresh_rate svc r =
          (Inr False, [GetCurrentState, ApplyMonitorsConfig params,
                       Print (ErrApplyingConfig (GLibError fault))])"
    using set_refresh_rate_reaches_apply [OF st] assms(2) params by simp
  from run_set_path [where py_float = py_float and b = False, OF argv this]
  have run: "run py_float svc argv =
           (Exited 1,
            [GetCurrentState, ApplyMonitorsConfig params,
             Print (ErrApplyingConfig (GLibError fault))])"
    by simp
  then show ?thesis by (simp add: is_apply_def)
qed

theorem run_apply_fault_witness:
  "apply_reply (service_with one_output_state (Some ''stale serial''))
       (7, 1, [(0, 0, Finite 1 0, 0, True, [(''DP-1'', ''1920x1080@240'', [])])], [])
     = Some ''stale serial''
   \<and> run float_of_arg (service_with one_output_state (Some ''stale serial''))
       [''set-refresh-rate.py'', ''240'']
     = (Exited 1,
        [GetCurrentState,
         ApplyMonitorsConfig (7, 1, [(0, 0, Finite 1 0, 0, True, [(''DP-1'', ''1920x1080@240'', [])])], []),
         Print (ErrApplyingConfig (GLibError ''stale serial''))])"
  using run_apply_fault [of "(7, 1, [(0, 0, Finite 1 0, 0, True, [(''DP-1'', ''1920x1080@240'', [])])], [])"
      float_of_arg "service_with one_output_state (Some ''stale serial'')"
      "[''set-refresh-rate.py'', ''240'']" "''stale serial''"]
  by (simp add: script_defs example_defs round_double_exact)


text \<open>
  C7: in every run, every per-connector entry of the configuration passed to
  \<^verbatim>\<open>ApplyMonitorsConfig\<close> carries an empty properties dictionary; nothing of the
  properties in the fetched state reaches the call.
\<close>

theorem run_entries_without_properties:
  assumes "ApplyMonitorsConfig (serial, method, new, gprops)
             \<in> set (snd (run py_float svc argv))"
  shows "\<forall>e\<in>set (submitted_entries new). entry_props e = []"
proof -
  from assms have "ApplyMonitorsConfig (serial, method, new, gprops)
      \<in> set (snd (main py_float svc argv))"
    by (simp add: snd_run)
  from main_apply_event [OF this] obtain r where
    "ApplyMonitorsConfig (serial, method, new, gprops) \<in> set (snd (set_refresh_rate svc r))"
    by blast
  from set_refresh_rate_apply_event [OF this] obtain lms modes target where
    "new_logical_monitors lms modes target = Inr new"
    by auto
  then have "build_logical_monitors lms modes target None = Inr new"
    by (simp add: new_logical_monitors_def)
  from build_logical_monitors_Inr [OF this] show ?thesis by blast
qed


theorem run_entries_without_properties_witness:
  "run float_of_arg (service_with one_output_state None) [''set-refresh-rate.py'', ''240'']
     = (Exited 0,
        [GetCurrentState,
         ApplyMonitorsConfig (7, 1, [(0, 0, Finite 1 0, 0, True, [(''DP-1'', ''1920x1080@240'', [])])], []),
         Print (RefreshRateSet (Finite 240 0))])
   \<and> map entry_props
        (submitted_entries [(0, 0, Finite 1 0, 0, True, [(''DP-1'', ''1920x1080@240'', [])])]) = [[]]"
  using run_entries_without_properties [of 7 1 "[(0, 0, Finite 1 0, 0, True, [(''DP-1'', ''1920x1080@240'', [])])]" "[]"
      float_of_arg "service_with one_output_state None" "[''set-refresh-rate.py'', ''240'']"]
  by (simp add: script_defs example_defs round_double_exact submitted_entries_def
      entries_of_def entry_props_def)


text \<open>
  C10: the configuration the set operation submits has, for each fetched logical monitor
  and in the same order, a logical monitor with the same x, y, scale, transform and
  is\_primary; the submitted logical monitors are six-element tuples without a properties
  map (their type has no such component), and the fetched logical monitors' own
  properties have no influence on the run: two states that differ only in them give the
  same result, calls and output.
\<close>

theorem set_refresh_rate_placement_kept:
  "(state_reply svc = Inr (serial, monitors, lms, gprops)
      \<and> ApplyMonitorsConfig (serial', method, new, gprops') \<in> set (snd (set_refresh_rate svc r))
      \<longrightarrow> map new_placement new = map placement lms)
   \<and> (map (with_lm_props []) lms' = map (with_lm_props []) lms
      \<longrightarrow> set_refresh_rate (svc\<lparr>state_reply := Inr (serial, monitors, lms', gprops)\<rparr>) r
          = set_refresh_rate (svc\<lparr>state_reply := Inr (serial, monitors, lms, gprops)\<rparr>) r)"
proof (intro conjI impI)
  assume "state_reply svc = Inr (serial, monitors, lms, gprops)
      \<and> ApplyMonitorsConfig (serial', method, new, gprops') \<in> set (snd (set_refresh_rate svc r))"
  then show "map new_placement new = map placement lms"
    using set_refresh_rate_placement by blast
next
  assume same: "map (with_lm_props []) lms' = map (with_lm_props []) lms"
  have "\<And>modes target. new_logical_monitors lms' modes target
      = new_logical_monitors lms modes target"
    unfolding new_logical_monitors_def
    by (rule build_logical_monitors_ignores_lm_props [OF same])
  then show "set_refresh_rate (svc\<lparr>state_reply := Inr (serial, monitors, lms', gprops)\<rparr>) r
          = set_refresh_rate (svc\<lparr>state_reply := Inr (serial, monitors, lms, gprops)\<rparr>) r"
    by (rule set_refresh_rate_ignores_lm_props)
qed

theorem set_refresh_rate_placement_kept_witness:
  "state_reply (service_with one_output_state None)
     = Inr (7, [dp1_monitor], [(0, 0, Finite 1 0, 0, True, [dp1], [(''legacy'', VBool True)])], [])
   \<and> set_refresh_rate (service_with one_output_state None) (Finite 240 0)
     = (Inr True,
        [GetCurrentState,
         ApplyMonitorsConfig (7, 1, [(0, 0, Finite 1 0, 0, True, [(''DP-1'', ''1920x1080@240'', [])])], []),
         Print (RefreshRateSet (Finite 240 0))])
   \<and> map new_placement [(0, 0, Finite 1 0, 0, True, [(''DP-1'', ''1920x1080@240'', [])])]
     = map placement [(0, 0, Finite 1 0, 0, True, [dp1], [(''legacy'', VBool True)])]
   \<and> map (with_lm_props []) [(0, 0, Finite 1 0, 0, True, [dp1], [])]
     = map (with_lm_props []) [(0, 0, Finite 1 0, 0, True, [dp1], [(''legacy'', VBool True)])]
   \<and> set_refresh_rate
        ((service_with one_output_state None)
           \<lparr>state_reply := Inr (7, [dp1_monitor], [(0, 0, Finite 1 0, 0, True, [dp1], [])], [])\<rparr>)
        (Finite 240 0)
     = set_refresh_rate
        ((service_with one_output_state None)
           \<lparr>state_reply := Inr (7, [dp1_monitor],
                [(0, 0, Finite 1 0, 0, True, [dp1], [(''legacy'', VBool True)])], [])\<rparr>)
        (Finite 240 0)"
  using set_refresh_rate_placement_kept [of "service_with one_output_state None" 7 "[dp1_monitor]"
      "[(0, 0, Finite 1 0, 0, True, [dp1], [(''legacy'', VBool True)])]" "[]" 7 1
      "[(0, 0, Finite 1 0, 0, True, [(''DP-1'', ''1920x1080@240'', [])])]" "[]" "Finite 240 0"
      "[(0, 0, Finite 1 0, 0, True, [dp1], [])]"]
  by (simp add: script_defs example_defs round_double_exact new_placement_def placement_def
      with_lm_props_def)


section \<open>parse\_modes and ill-shaped entries\<close>

lemma parse_mode_py_enc:
  "parse_mode_py (VStr conn) (enc_mode_tuple mode) = Inr (enc_mode (parse_mode conn mode))"
  by (cases mode)
    (simp add: parse_mode_py_def enc_mode_tuple_def enc_mode_def parse_mode_def unpack_def)

lemma parse_mode_list_py_enc:
  "parse_mode_list_py (VStr conn) (map enc_mode_tuple mode_list)
     = Inr (map enc_mode (map (parse_mode conn) mode_list))"
  by (induction mode_list) (simp_all add: parse_mode_py_enc)

lemma parse_modes_py_enc:
  "parse_modes_py (map enc_monitor monitors) = Inr (map enc_mode (parse_modes monitors))"
proof (induction monitors)
  case Nil
  then show ?case by simp
next
  case (Cons mon monitors)
  obtain conn vendor product serial_num mode_list mprops where
    mon: "mon = ((conn, vendor, product, serial_num), mode_list, mprops)"
    by (cases mon) auto
  show ?case using Cons.IH
    by (simp add: mon enc_monitor_def unpack_def parse_mode_list_py_enc)
qed

lemma length_parse_modes:
  "length (parse_modes monitors) = sum_list (map (\<lambda>mon. length (fst (snd mon))) monitors)"
  by (induction monitors rule: parse_modes.induct) simp_all

lemma parse_mode_py_shape:
  "(\<exists>d. parse_mode_py conn v = Inr d) \<longleftrightarrow> well_shaped_mode v"
proof (cases "py_iter v")
  case (Inl e)
  then show ?thesis by (simp add: parse_mode_py_def unpack_def well_shaped_mode_def)
next
  case (Inr xs)
  show ?thesis
  proof (cases "length xs = 7")
    case False
    with Inr show ?thesis by (simp add: parse_mode_py_def unpack_def well_shaped_mode_def)
  next
    case True
    with Inr show ?thesis
      by (cases "xs ! 6")
        (simp_all add: parse_mode_py_def unpack_def well_shaped_mode_def is_dict_def)
  qed
qed

lemma parse_mode_list_py_shape:
  "(\<exists>ds. parse_mode_list_py conn vs = Inr ds) \<longleftrightarrow> list_all well_shaped_mode vs"
proof (induction vs)
  case Nil
  then show ?case by simp
next
  case (Cons v vs)
  show ?case
  proof (cases "parse_mode_py conn v")
    case (Inl e)
    with parse_mode_py_shape [of conn v] show ?thesis by auto
  next
    case (Inr d)
    with parse_mode_py_shape [of conn v] have "well_shaped_mode v" by auto
    with Inr Cons.IH show ?thesis by (auto split: sum.splits)
  qed
qed

lemma parse_mode_list_py_length:
  "parse_mode_list_py conn vs = Inr ds \<Longrightarrow> length ds = length vs"
  by (induction vs arbitrary: ds) (auto split: sum.splits)

lemma parse_monitor_shape:
  "well_shaped_monitor v \<longleftrightarrow>
     (\<exists>parts ci mode_list ds.
        unpack 3 v = Inr parts \<and> unpack 4 (parts ! 0) = Inr ci
        \<and> py_iter (parts ! 1) = Inr mode_list
        \<and> parse_mode_list_py (ci ! 0) mode_list = Inr ds)"
proof -
  have "\<And>c ml. (\<exists>ds. parse_mode_list_py c ml = Inr ds) = list_all well_shaped_mode ml"
    by (rule parse_mode_list_py_shape)
  then show ?thesis
    by (auto simp add: well_shaped_monitor_def unpacks_into_def unpack_def
        split: sum.splits if_splits)
qed

lemma parse_modes_py_shape:
  "(\<exists>r. parse_modes_py vs = Inr r) \<longleftrightarrow> list_all well_shaped_monitor vs"
proof (induction vs)
  case Nil
  then show ?case by simp
next
  case (Cons v vs)
  show ?case
  proof (cases "well_shaped_monitor v")
    case True
    then obtain parts ci mode_list ds where
      "unpack 3 v = Inr parts" "unpack 4 (parts ! 0) = Inr ci"
      "py_iter (parts ! 1) = Inr mode_list"
      "parse_mode_list_py (ci ! 0) mode_list = Inr ds"
      using parse_monitor_shape [of v] by blast
    with True Cons.IH show ?thesis by (auto split: sum.splits)
  next
    case False
    with parse_monitor_shape [of v] show ?thesis
      by (auto split: sum.splits)
  qed
qed

lemma parse_modes_py_length:
  "parse_modes_py vs = Inr r \<Longrightarrow> length r = sum_list (map mode_count vs)"
proof (induction vs arbitrary: r)
  case Nil
  then show ?case by simp
next
  case (Cons v vs)
  from Cons.prems obtain parts ci mode_list ds rest where
    p: "unpack 3 v = Inr parts" "unpack 4 (parts ! 0) = Inr ci"
      "py_iter (parts ! 1) = Inr mode_list"
      "parse_mode_list_py (ci ! 0) mode_list = Inr ds"
      "parse_modes_py vs = Inr rest" and r: "r = ds @ rest"
    by (auto split: sum.splits)
  from p(1) have "py_iter v = Inr parts"
    by (auto simp add: unpack_def split: sum.splits if_splits)
  with p(3) have "mode_count v = length mode_list" by (simp add: mode_count_def)
  moreover from p(4) have "length ds = length mode_list"
    by (rule parse_mode_list_py_length)
  moreover from Cons.IH [OF p(5)] have "length rest = sum_list (map mode_count vs)" .
  ultimately show ?case using r by simp
qed

text \<open>
  C6, as stated: on every monitor list the parsing step never fails, and ill-shaped
  entries are left out of the result. On the code this fails: the function has no error
  handling, so an entry that cannot be unpacked (here a one-element tuple after a
  well-shaped monitor) raises \<^verbatim>\<open>ValueError\<close> and no list is returned at all, although
  the well-shaped monitor alone parses to its two modes.
\<close>

theorem parse_modes_py_malformed_entry_raises:
  "parse_modes_py [enc_monitor dp1_monitor, VTuple [VStr ''DP-2'']] = Inl ValueError
   \<and> parse_modes_py [enc_monitor dp1_monitor] = Inr [enc_mode m60, enc_mode m240]"
  by (simp add: example_defs enc_monitor_def enc_mode_tuple_def enc_mode_def unpack_def
      parse_mode_py_def)

text \<open>
  C6, amended: the parsing step is a pure function of the monitor list. When every entry
  is well-shaped (it unpacks into three parts, the first of which unpacks into four, and
  the second can be iterated and yields only elements that unpack into seven parts, the
  last a dictionary), it does not fail and returns exactly one entry per mode entry of
  every monitor, omitting none. When some entry is not well-shaped, it raises an exception
  and returns no list: the entry is not omitted. The unpacked reply of the service is
  always well-shaped, and on it the step returns, in order, the dictionary of every mode
  of every monitor.
\<close>

theorem parse_modes_py_well_shaped:
  "(list_all well_shaped_monitor vs \<longrightarrow>
      (\<exists>r. parse_modes_py vs = Inr r \<and> length r = sum_list (map mode_count vs)))
   \<and> (\<not> list_all well_shaped_monitor vs \<longrightarrow> (\<exists>e. parse_modes_py vs = Inl e))
   \<and> list_all well_shaped_monitor (map enc_monitor monitors)
   \<and> parse_modes_py (map enc_monitor monitors) = Inr (map enc_mode (parse_modes monitors))"
proof -
  have a: "\<exists>r. parse_modes_py vs = Inr r \<and> length r = sum_list (map mode_count vs)"
    if "list_all well_shaped_monitor vs"
    using that parse_modes_py_shape [of vs] parse_modes_py_length [of vs] by blast
  have b: "\<exists>e. parse_modes_py vs = Inl e" if "\<not> list_all well_shaped_monitor vs"
    using that parse_modes_py_shape [of vs] by (cases "parse_modes_py vs") auto
  have c: "parse_modes_py (map enc_monitor monitors)
             = Inr (map enc_mode (parse_modes monitors))"
    by (rule parse_modes_py_enc)
  then have d: "list_all well_shaped_monitor (map enc_monitor monitors)"
    using parse_modes_py_shape [of "map enc_monitor monitors"] by simp
  from a b c d show ?thesis by blast
qed

theorem parse_modes_py_well_shaped_witness:
  "list_all well_shaped_monitor
     [VList [VStr ''abcd'', VTuple [VList [VNone, VNone, VNone, VNone, VNone, VNone, VDict []]],
             VNone]]
   \<and> parse_modes_py
        [VList [VStr ''abcd'', VTuple [VList [VNone, VNone, VNone, VNone, VNone, VNone, VDict []]],
                VNone]]
       = Inr [VDict [(''connector'', VStr ''a''), (''mode_id'', VNone), (''width'', VNone),
                     (''height'', VNone), (''refresh'', VNone), (''scale'', VNone),
                     (''scales'', VNone), (''is_current'', VBool False),
                     (''is_preferred'', VBool False), (''props'', VDict [])]]
   \<and> \<not> list_all well_shaped_monitor [enc_monitor dp1_monitor, VTuple [VStr ''DP-2'']]
   \<and> parse_modes_py [enc_monitor dp1_monitor, VTuple [VStr ''DP-2'']] = Inl ValueError
   \<and> parse_modes_py (map enc_monitor [dp1_monitor, hdmi1_monitor])
       = Inr (map enc_mode [m60, m240, parse_mode ''HDMI-1'' hdmi_mode])
   \<and> parse_modes [dp1_monitor, hdmi1_monitor] = [m60, m240, parse_mode ''HDMI-1'' hdmi_mode]"
  using parse_modes_py_well_shaped [of
      "[VList [VStr ''abcd'',
          VTuple [VList [VNone, VNone, VNone, VNone, VNone, VNone, VDict []]], VNone]]"
      "[dp1_monitor, hdmi1_monitor]"]
    parse_modes_py_well_shaped [of "[enc_monitor dp1_monitor, VTuple [VStr ''DP-2'']]" "[]"]
  by (simp add: example_defs enc_monitor_def enc_mode_tuple_def enc_mode_def unpack_def
      parse_mode_py_def well_shaped_monitor_def well_shaped_mode_def unpacks_into_def
      is_dict_def dict_get_def)


end
